theory Spec2Isabelle
  imports Complex_Main
begin

section \<open>JavaScript strings\<close>

text \<open>
  A JavaScript string is a sequence of UTF-16 code units. The model is \<^typ>\<open>string\<close>, read as
  the code units below 256 (Basic Latin and Latin-1 Supplement); on that range the functions
  below are the ones of ECMAScript. \<open>cu\<close> is the numeric value of a code unit.
\<close>

definition cu :: "char \<Rightarrow> nat" where
  "cu c = of_char c"

text \<open>
  \<open>\s\<close> of a regular expression and the characters removed by \<open>String.prototype.trim\<close>
  (WhiteSpace and LineTerminator): TAB, LF, VT, FF, CR, SP and NBSP in this range.
\<close>

definition isSpace :: "char \<Rightarrow> bool" where
  "isSpace c = (cu c \<in> {9, 10, 11, 12, 13, 32, 160})"

text \<open>The characters that \<open>.\<close> of a regular expression does not match.\<close>

definition isLineTerminator :: "char \<Rightarrow> bool" where
  "isLineTerminator c = (cu c = 10 \<or> cu c = 13)"

text \<open>\<open>\w\<close> of a regular expression: \<open>[A-Za-z0-9_]\<close>.\<close>

definition isWordChar :: "char \<Rightarrow> bool" where
  "isWordChar c =
     ((65 \<le> cu c \<and> cu c \<le> 90) \<or> (97 \<le> cu c \<and> cu c \<le> 122) \<or>
      (48 \<le> cu c \<and> cu c \<le> 57) \<or> cu c = 95)"

text \<open>
  \<open>String.prototype.toLowerCase\<close>: \<open>A-Z\<close>, and in Latin-1 \<open>U+00C0..U+00D6\<close> and
  \<open>U+00D8..U+00DE\<close>, move up by 32; every other code unit of the range is unchanged.
\<close>

definition lowerChar :: "char \<Rightarrow> char" where
  "lowerChar c =
     (if (65 \<le> cu c \<and> cu c \<le> 90) \<or> (192 \<le> cu c \<and> cu c \<le> 214) \<or> (216 \<le> cu c \<and> cu c \<le> 222)
      then char_of (cu c + 32) else c)"

definition toLowerCase :: "string \<Rightarrow> string" where
  "toLowerCase s = map lowerChar s"

text \<open>
  Canonicalisation of the \<open>i\<close> flag (without \<open>u\<close>): a code unit is compared through its
  upper case, and a code unit from 128 on is never identified with one below 128. Every
  pattern matched with the flag in this program consists of ASCII characters, for which
  only the ASCII folding matters.
\<close>

definition canon :: "char \<Rightarrow> char" where
  "canon c = (if 97 \<le> cu c \<and> cu c \<le> 122 then char_of (cu c - 32) else c)"

definition trim :: "string \<Rightarrow> string" where
  "trim s = rev (dropWhile isSpace (rev (dropWhile isSpace s)))"

text \<open>\<open>p\<close> matched case-insensitively at the start of \<open>s\<close>; the result is what follows.\<close>

fun stripPrefixCI :: "string \<Rightarrow> string \<Rightarrow> string option" where
  "stripPrefixCI [] s = Some s"
| "stripPrefixCI (p # ps) [] = None"
| "stripPrefixCI (p # ps) (c # cs) =
     (if canon c = canon p then stripPrefixCI ps cs else None)"

text \<open>An alternation \<open>(p1|p2|...)\<close> at the start of \<open>s\<close>: the first alternative that matches.\<close>

fun matchAlternatives :: "string list \<Rightarrow> string \<Rightarrow> string option" where
  "matchAlternatives [] s = None"
| "matchAlternatives (p # ps) s =
     (case stripPrefixCI p s of Some r \<Rightarrow> Some r | None \<Rightarrow> matchAlternatives ps s)"

text \<open>\<open>String.prototype.includes\<close>: \<open>k\<close> occurs in \<open>s\<close> as a contiguous run.\<close>

fun startsWith :: "string \<Rightarrow> string \<Rightarrow> bool" where
  "startsWith s [] = True"
| "startsWith [] (k # ks) = False"
| "startsWith (c # cs) (k # ks) = (c = k \<and> startsWith cs ks)"

fun includesStr :: "string \<Rightarrow> string \<Rightarrow> bool" where
  "includesStr [] k = (k = [])"
| "includesStr (c # cs) k = (startsWith (c # cs) k \<or> includesStr cs k)"

text \<open>\<open>Array.prototype.join\<close> with a separator.\<close>

fun join :: "string \<Rightarrow> string list \<Rightarrow> string" where
  "join sep [] = []"
| "join sep [x] = x"
| "join sep (x # y # ys) = x @ sep @ join sep (y # ys)"

section \<open>The transformer of \<open>RedditScraper\<close>: titles\<close>

text \<open>
  \<open>.replace(/^(PSA:|LPT:|TIL:|DAE:|TIFU:|AMA:?)\s*/i, "")\<close>: the alternatives are tried in
  order (\<open>AMA:?\<close> is greedy, so \<open>AMA:\<close> before \<open>AMA\<close>), then the white space that follows
  is consumed. Without a match the string is unchanged.
\<close>

definition stripTagPrefix :: "string \<Rightarrow> string" where
  "stripTagPrefix s =
     (case matchAlternatives [''PSA:'', ''LPT:'', ''TIL:'', ''DAE:'', ''TIFU:'', ''AMA:'', ''AMA''] s of
        Some r \<Rightarrow> dropWhile isSpace r
      | None \<Rightarrow> s)"

text \<open>
  \<open>.replace(/^\[.*?\]\s*/, "")\<close>: an opening bracket at the start, the shortest run of
  characters other than line terminators up to a closing bracket, then white space. The lazy
  \<open>.*?\<close> stops at the first closing bracket; a line terminator before it leaves no match.
\<close>

definition stripBracketPrefix :: "string \<Rightarrow> string" where
  "stripBracketPrefix s =
     (case s of
        [] \<Rightarrow> s
      | c # rest \<Rightarrow>
          if c = CHR ''[''
          then (let body = takeWhile (\<lambda>x. x \<noteq> CHR '']'') rest;
                    rest' = dropWhile (\<lambda>x. x \<noteq> CHR '']'') rest
                in if rest' \<noteq> [] \<and> list_all (\<lambda>x. \<not> isLineTerminator x) body
                   then dropWhile isSpace (tl rest') else s)
          else s)"

text \<open>
  \<open>enhanceTitle(originalTitle)\<close>. The argument is \<open>None\<close> when the upstream item has no
  \<open>title\<close> field (\<open>undefined\<close>); \<open>!originalTitle\<close> holds for that and for the empty string.
\<close>

definition enhanceTitle :: "string option \<Rightarrow> string" where
  "enhanceTitle originalTitle =
     (case originalTitle of
        None \<Rightarrow> ''Discussion Post''
      | Some t \<Rightarrow>
          if t = [] then ''Discussion Post''
          else (let enhanced = trim (stripBracketPrefix (stripTagPrefix t))
                in if enhanced = [] then t else enhanced))"

section \<open>The transformer of \<open>RedditScraper\<close>: bodies, tags, media\<close>

text \<open>
  The upstream item (\<open>child.data\<close> of a listing). The title and the permalink are optional:
  \<open>None\<close> is a field that is absent (\<open>undefined\<close>), which is what a template literal prints
  as \<open>undefined\<close>; a field holding \<open>null\<close> is not an input of this model. Every child of a
  listing carries its \<open>subreddit\<close>: it is a string here, and a child without one is not an
  input of this model either (\<open>generateContentFromContext\<close> calls \<open>toLowerCase\<close> on it, so the
  code throws a \<open>TypeError\<close> there). Of the remaining fields a missing string is the empty
  string and a missing number is 0, which the code treats alike (\<open>x || 0\<close>, \<open>if (x)\<close>).
  \<open>created_utc\<close> is in whole seconds of the upstream clock.
  \<open>rp_preview\<close> is \<open>preview.images[0].source.url\<close>, \<open>rp_fallback_url\<close> is
  \<open>media.reddit_video.fallback_url\<close>, and \<open>rp_media_metadata\<close> holds, for each value of
  \<open>media_metadata\<close> (present or not), its \<open>s.u\<close>.
\<close>

record rpost =
  rp_id :: string
  rp_title :: "string option"
  selftext :: string
  permalink :: "string option"
  rp_author :: string
  created_utc :: int
  ups :: int
  num_crossposts :: int
  rp_thumbnail :: string
  rp_preview :: "string option"
  rp_url :: string
  is_video :: bool
  rp_fallback_url :: "string option"
  is_gallery :: bool
  rp_media_metadata :: "string option list option"
  rp_subreddit :: string
  link_flair_text :: string
  rp_score :: int
  upvote_ratio :: real
  rp_stickied :: bool

record media =
  media_type :: string
  media_url :: string

text \<open>
  The item in the standard format, as \<open>transformRedditPost\<close> builds it. \<open>stickied\<close> and
  \<open>pinned\<close> are the flags \<open>filterNewContent\<close> reads (true only when the field is the
  boolean \<open>true\<close>); \<open>qualityScore\<close> and \<open>authenticityScore\<close> are the fields that
  \<open>validateAuthenticContent\<close> adds. \<open>createdAt\<close> is in milliseconds.
\<close>

record item =
  item_id :: string
  title :: string
  content :: string
  url :: string
  author :: string
  createdAt :: int
  likes :: int
  comments :: int
  shares :: int
  views :: int
  thumbnail :: "string option"
  mediaUrls :: "media list"
  tags :: "string list"
  platform :: string
  subreddit :: string
  score :: int
  upvoteRatio :: real
  stickied :: bool
  pinned :: bool
  qualityScore :: "real option"
  authenticityScore :: "real option"

text \<open>
  A global \<open>replace\<close> with a regular expression: at each position, from left to right, a
  match is deleted and the search resumes after it; otherwise the character is kept. The
  matcher gets whether the position starts a line (for \<open>^\<close> under the \<open>m\<close> flag) and
  returns what follows the match. Every match of the expressions below ends with a character
  that is not a line terminator, so the position after a match does not start a line.
\<close>

function replaceAll :: "(bool \<Rightarrow> string \<Rightarrow> string option) \<Rightarrow> bool \<Rightarrow> string \<Rightarrow> string" where
  "replaceAll m bol [] = []"
| "replaceAll m bol (c # cs) =
     (case m bol (c # cs) of
        Some r \<Rightarrow> if length r < length (c # cs) then replaceAll m False r
                  else c # replaceAll m (isLineTerminator c) cs
      | None \<Rightarrow> c # replaceAll m (isLineTerminator c) cs)"
  by pat_completeness auto
termination
  by (relation "measure (\<lambda>(m, bol, s). length s)") auto

text \<open>\<open>.*$\<close> under the \<open>m\<close> flag: the rest of the line, up to (not including) its terminator.\<close>

definition toEndOfLine :: "string \<Rightarrow> string" where
  "toEndOfLine s = dropWhile (\<lambda>x. \<not> isLineTerminator x) s"

text \<open>\<open>/Edit:.*$/gim\<close>, \<open>/Update:.*$/gim\<close>, \<open>/TL;DR:.*$/gim\<close>: the word anywhere, to the end of its line.\<close>

definition noteMatcher :: "string \<Rightarrow> bool \<Rightarrow> string \<Rightarrow> string option" where
  "noteMatcher word bol s = map_option toEndOfLine (stripPrefixCI word s)"

text \<open>
  \<open>/^\s*EDIT\s*:.*$/gim\<close>: at the start of a line, white space (which may span lines), the
  word, white space, a colon, and the rest of that line. Each \<open>\s*\<close> is followed by a
  character that is not white space, so only its longest match can succeed.
\<close>

definition editLineMatcher :: "bool \<Rightarrow> string \<Rightarrow> string option" where
  "editLineMatcher bol s =
     (if bol then
        (case stripPrefixCI ''EDIT'' (dropWhile isSpace s) of
           None \<Rightarrow> None
         | Some r \<Rightarrow> map_option toEndOfLine (stripPrefixCI '':'' (dropWhile isSpace r)))
      else None)"

definition stripNotes :: "string \<Rightarrow> string" where
  "stripNotes s =
     trim (replaceAll editLineMatcher True
       (replaceAll (noteMatcher ''TL;DR:'') True
         (replaceAll (noteMatcher ''Update:'') True
           (replaceAll (noteMatcher ''Edit:'') True s))))"

definition expansions :: "string list" where
  "expansions =
    [''I've been thinking about this lately and wanted to get the community's perspective.'',
     ''This has been on my mind and I'd love to hear different viewpoints.'',
     ''I'm curious about others' experiences with this topic.'',
     ''Looking for insights from people who might have dealt with something similar.'']"

text \<open>
  \<open>expandShortContent(content, postData)\<close>. \<open>r\<close> is the value of
  \<open>Math.floor(Math.random() * expansions.length)\<close>, an index below 4.
\<close>

definition expandShortContent :: "nat \<Rightarrow> string \<Rightarrow> string" where
  "expandShortContent r c =
     (if length c \<ge> 50 then c else c @ [CHR 0x0A, CHR 0x0A] @ expansions ! (r mod 4))"

text \<open>
  The lookup \<open>contextualPhrases[key]\<close> in an object literal: its six own keys, and the two
  lower-case keys it inherits from \<open>Object.prototype\<close>, whose values are not strings but are
  truthy and are printed by the template literal.
\<close>

definition contextualPhrases :: "string \<Rightarrow> string option" where
  "contextualPhrases key =
     (if key = ''entrepreneur'' then Some ''Looking for insights and experiences from fellow entrepreneurs.''
      else if key = ''business'' then Some ''Seeking advice and perspectives from the business community.''
      else if key = ''startups'' then Some ''Would love to hear thoughts from other startup founders.''
      else if key = ''smallbusiness'' then Some ''Any other small business owners have similar experiences?''
      else if key = ''marketing'' then Some ''Interested in hearing different marketing approaches to this.''
      else if key = ''investing'' then Some ''What are your thoughts on this from an investment perspective?''
      else if key = ''constructor'' then Some ''function Object() { [native code] }''
      else if key = ''__proto__'' then Some ''[object Object]''
      else None)"

definition defaultPhrase :: string where
  "defaultPhrase = ''What are your thoughts and experiences with this?''"

text \<open>
  A field printed by a template literal: an absent one (\<open>undefined\<close>) prints as
  \<open>undefined\<close>.
\<close>

definition printed :: "string option \<Rightarrow> string" where
  "printed v = (case v of None \<Rightarrow> ''undefined'' | Some s \<Rightarrow> s)"

definition generateContentFromContext :: "rpost \<Rightarrow> string" where
  "generateContentFromContext postData =
     (let contextPhrase =
            (case contextualPhrases (toLowerCase (rp_subreddit postData)) of
               Some p \<Rightarrow> p | None \<Rightarrow> defaultPhrase)
      in printed (rp_title postData) @ [CHR 0x0A, CHR 0x0A] @ contextPhrase)"

text \<open>\<open>enhanceContent(originalContent, postData)\<close>, with the random index \<open>r\<close>.\<close>

definition enhanceContent :: "nat \<Rightarrow> string option \<Rightarrow> rpost \<Rightarrow> string" where
  "enhanceContent r originalContent postData =
     (case originalContent of
        None \<Rightarrow> generateContentFromContext postData
      | Some oc \<Rightarrow>
          if oc = [] \<or> trim oc = [] then generateContentFromContext postData
          else (let cleaned = stripNotes oc;
                    enhanced = (if length cleaned < 50 then expandShortContent r cleaned else cleaned)
                in if enhanced = [] then oc else enhanced))"

text \<open>
  \<open>Math.random\<close> is called in \<open>expandShortContent\<close> only, which \<open>enhanceContent\<close> reaches when
  the content it is given is not blank and is shorter than 50 after the clean-up.
\<close>

definition reachesRandom :: "string option \<Rightarrow> bool" where
  "reachesRandom originalContent =
     (case originalContent of
        None \<Rightarrow> False
      | Some oc \<Rightarrow> \<not> (oc = [] \<or> trim oc = []) \<and> length (stripNotes oc) < 50)"

text \<open>\<open>text.match(/#\w+/g)\<close>, each match without its \<open>#\<close>.\<close>

function hashtags :: "string \<Rightarrow> string list" where
  "hashtags [] = []"
| "hashtags (c # cs) =
     (if c = CHR ''#'' \<and> takeWhile isWordChar cs \<noteq> []
      then takeWhile isWordChar cs # hashtags (dropWhile isWordChar cs)
      else hashtags cs)"
  by pat_completeness auto
termination
  by (relation "measure length") (auto simp: less_Suc_eq_le length_dropWhile_le)

text \<open>\<open>[...new Set(tags)]\<close>: the first occurrence of each element, in order.\<close>

fun uniq :: "'a list \<Rightarrow> 'a list \<Rightarrow> 'a list" where
  "uniq seen [] = []"
| "uniq seen (x # xs) = (if x \<in> set seen then uniq seen xs else x # uniq (x # seen) xs)"

definition extractTags :: "rpost \<Rightarrow> string list" where
  "extractTags post =
     (let t1 = (if rp_subreddit post \<noteq> [] then [toLowerCase (rp_subreddit post)] else []);
          t2 = (if link_flair_text post \<noteq> [] then [toLowerCase (link_flair_text post)] else []);
          text = printed (rp_title post) @ '' '' @ selftext post
      in uniq [] (t1 @ t2 @ map toLowerCase (hashtags text)))"

text \<open>\<open>.replace(/&amp;/g, "&")\<close>.\<close>

fun unescapeAmp :: "string \<Rightarrow> string" where
  "unescapeAmp [] = []"
| "unescapeAmp (c # cs) =
     (if startsWith (c # cs) ''&amp;'' then CHR ''&'' # unescapeAmp (drop 4 cs)
      else c # unescapeAmp cs)"

definition extractThumbnail :: "rpost \<Rightarrow> string option" where
  "extractThumbnail post =
     (if rp_thumbnail post \<noteq> [] \<and> rp_thumbnail post \<noteq> ''self'' \<and> rp_thumbnail post \<noteq> ''default''
      then Some (rp_thumbnail post)
      else (case rp_preview post of
              Some u \<Rightarrow> if u \<noteq> [] then Some (unescapeAmp u) else None
            | None \<Rightarrow> None))"

text \<open>
  \<open>extractMediaUrls(post)\<close>. \<open>isImageUrl\<close> belongs to \<open>ScrapingUtils\<close>, which is not part of
  the sources at hand, and is a parameter.
\<close>

definition extractMediaUrls :: "(string \<Rightarrow> bool) \<Rightarrow> rpost \<Rightarrow> media list" where
  "extractMediaUrls isImageUrl post =
     (if rp_url post \<noteq> [] \<and> isImageUrl (rp_url post)
      then [\<lparr>media_type = ''image'', media_url = rp_url post\<rparr>] else [])
     @ (case rp_fallback_url post of
          Some u \<Rightarrow> if is_video post \<and> u \<noteq> [] then [\<lparr>media_type = ''video'', media_url = u\<rparr>] else []
        | None \<Rightarrow> [])
     @ (case rp_media_metadata post of
          Some ms \<Rightarrow>
            if is_gallery post
            then concat (map (\<lambda>m. case m of
                                     Some u \<Rightarrow> if u \<noteq> [] then [\<lparr>media_type = ''image'', media_url = unescapeAmp u\<rparr>] else []
                                   | None \<Rightarrow> []) ms)
            else []
        | None \<Rightarrow> [])"

definition baseUrl :: string where
  "baseUrl = ''https://www.reddit.com''"

text \<open>
  \<open>redditPost.selftext || redditPost.title\<close>, the content that \<open>transformRedditPost\<close> hands to
  \<open>enhanceContent\<close>: the body when it is not empty, and the title otherwise.
\<close>

definition passedBody :: "rpost \<Rightarrow> string option" where
  "passedBody redditPost =
     (if selftext redditPost \<noteq> [] then Some (selftext redditPost) else rp_title redditPost)"

text \<open>
  \<open>transformRedditPost(redditPost)\<close>, with the parameter \<open>isImageUrl\<close> and the random index
  \<open>r\<close>, which is read only when \<open>reachesRandom (passedBody redditPost)\<close>.
\<close>

definition transformRedditPost :: "(string \<Rightarrow> bool) \<Rightarrow> nat \<Rightarrow> rpost \<Rightarrow> item" where
  "transformRedditPost isImageUrl r redditPost =
     (let dynamicTitle = enhanceTitle (rp_title redditPost);
          dynamicContent = enhanceContent r (passedBody redditPost) redditPost
      in \<lparr>item_id = rp_id redditPost,
          title = dynamicTitle,
          content = dynamicContent,
          url = baseUrl @ printed (permalink redditPost),
          author = rp_author redditPost,
          createdAt = created_utc redditPost * 1000,
          likes = ups redditPost,
          comments = 0,
          shares = num_crossposts redditPost,
          views = 0,
          thumbnail = extractThumbnail redditPost,
          mediaUrls = extractMediaUrls isImageUrl redditPost,
          tags = extractTags redditPost,
          platform = ''reddit'',
          subreddit = rp_subreddit redditPost,
          score = rp_score redditPost,
          upvoteRatio = upvote_ratio redditPost,
          stickied = False,
          pinned = False,
          qualityScore = None,
          authenticityScore = None\<rparr>)"

text \<open>\<open>matchesKeywords(post, keywords)\<close>.\<close>

definition searchTextOf :: "item \<Rightarrow> string" where
  "searchTextOf post = title post @ '' '' @ content post @ '' '' @ join '' '' (tags post)"

definition matchesKeywords :: "item \<Rightarrow> string list \<Rightarrow> bool" where
  "matchesKeywords post keywords =
     list_ex (\<lambda>keyword. includesStr (toLowerCase (searchTextOf post)) (toLowerCase keyword)) keywords"

section \<open>Effects: outcomes, the world, the environment\<close>

text \<open>
  A JavaScript \<open>Error\<close>: its message and, for an HTTP error of the client library, the status
  of the response (\<open>error.response?.status\<close>).
\<close>

datatype err = Err (message: string) (status: "nat option")

text \<open>
  An asynchronous function either returns, throws (its promise rejects), or never settles.
\<close>

datatype 'a outcome = Return 'a | Throw err | Diverge

text \<open>
  Requests to the upstream API, through \<open>authorizedGet\<close>: a page of a listing
  (\<open>/r/<subreddit>/<sort>\<close> with \<open>limit\<close> and \<open>after\<close>) and the comments of a post.
\<close>

datatype request =
    GetListing string string nat "string option"
  | GetComments string nat

text \<open>A comment of the upstream API (\<open>child.data\<close>); a missing body is the empty string.\<close>

record rcomment =
  rc_id :: string
  body :: string
  rc_author :: string
  rc_created_utc :: int
  rc_ups :: int
  parent_id :: string

text \<open>
  What a response carries in \<open>response.data\<close>: a listing \<open>{data: {children, after}}\<close>, where a
  child may lack its \<open>data\<close>; an array of listings, each with or without
  \<open>data.children\<close>; or anything else.
\<close>

datatype payload =
    PostListing "rpost option list" "string option"
  | ListingArray "rcomment option list option list"
  | Malformed

datatype response = Ok payload | Failed err

datatype event = Requested request | Delayed nat

text \<open>
  The persisted \<open>Post\<close> document, with the fields the pipeline writes, nested as in the
  schema. Times are in milliseconds.
\<close>

record engagementMetrics =
  em_likes :: nat
  em_comments :: nat
  em_shares :: int
  em_views :: int

record scrapingMetadata =
  scrapedAt :: nat
  originalAuthor :: string
  originalCreatedAt :: int
  sm_qualityScore :: real
  sm_authenticityScore :: real
  sm_tags :: "string list"
  contentType :: string
  isAuthentic :: bool
  validationMethod :: string

record post =
  p_title :: string
  p_content :: string
  sourceUrl :: string
  p_platform :: string
  originalId :: string
  p_community :: string
  owner :: string
  p_engagementMetrics :: engagementMetrics
  p_scrapingMetadata :: scrapingMetadata
  p_thumbnail :: "string option"
  p_mediaUrls :: "media list"
  p_status :: string

record platformConfig =
  pc_platform :: string
  pc_sourceUrl :: string
  pc_keywords :: "string list"
  pc_isActive :: bool

record scrapingConfig =
  maxPostsPerScrape :: "nat option"
  qualityThreshold :: "real option"

record community =
  c_id :: string
  c_name :: string
  c_isActive :: bool
  scrapingPlatforms :: "platformConfig list"
  lastScrapedAt :: "int option"
  postCount :: nat
  c_scrapingConfig :: "scrapingConfig option"

text \<open>
  The world the program runs in: the three collections of the document store (of \<open>User\<close>, the
  ids of the users of type \<open>platform\<close>), the clock in milliseconds, the numbers of upstream
  requests, of operations on the store and its collaborators, and of random draws made so
  far, and the trace of requests and pauses.
\<close>

record world =
  posts :: "post list"
  communities :: "community list"
  platformUsers :: "string list"
  clock :: nat
  requests :: nat
  dbOps :: nat
  draws :: nat
  trace :: "event list"

text \<open>The result of \<open>contentValidator.validateAuthenticity\<close> and of the content processor.\<close>

record validation =
  valid :: bool
  reason :: string
  v_score :: real

record processed =
  pr_title :: string
  pr_content :: string
  pr_tags :: "string list"
  pr_contentType :: "string option"
  pr_mediaUrls :: "media list"

text \<open>
  What the program does not decide. \<open>upstream n rq\<close> is the answer to request \<open>rq\<close> when it is
  the \<open>n\<close>-th request issued (token acquisition included: its failure is an error without a
  response). \<open>fault n\<close>, when present, is the message with which the \<open>n\<close>-th operation on the
  store or a collaborator rejects. \<open>random n\<close> determines the \<open>n\<close>-th random draw.
  The functions of \<open>ContentProcessor\<close>, \<open>ContentValidator\<close> and \<open>ScrapingUtils\<close> are not
  part of the sources at hand and are parameters. \<open>openaiKey\<close> is whether
  \<open>process.env.OPENAI_API_KEY\<close> is set. \<open>fuel\<close> bounds the number of requests one call of a
  fetching function may issue before it counts as never settling.
\<close>

record env =
  upstream :: "nat \<Rightarrow> request \<Rightarrow> response"
  fault :: "nat \<Rightarrow> string option"
  random :: "nat \<Rightarrow> nat"
  calculateQualityScore :: "item \<Rightarrow> real"
  validateAuthenticity :: "item \<Rightarrow> validation"
  processContent :: "item \<Rightarrow> processed"
  processAuthenticContent :: "item \<Rightarrow> processed"
  isImageUrl :: "string \<Rightarrow> bool"
  openaiKey :: bool
  fuel :: nat

type_synonym 'a prog = "world \<Rightarrow> 'a outcome \<times> world"

definition ret :: "'a \<Rightarrow> 'a prog" where
  "ret x w = (Return x, w)"

definition throw :: "err \<Rightarrow> 'a prog" where
  "throw e w = (Throw e, w)"

text \<open>\<open>await m\<close> followed by \<open>f\<close>: a rejection or a promise that never settles ends the sequence.\<close>

definition bindP :: "'a prog \<Rightarrow> ('a \<Rightarrow> 'b prog) \<Rightarrow> 'b prog" where
  "bindP m f w =
     (case m w of
        (Return x, w') \<Rightarrow> f x w'
      | (Throw e, w') \<Rightarrow> (Throw e, w')
      | (Diverge, w') \<Rightarrow> (Diverge, w'))"

text \<open>\<open>try { m } catch (error) { h(error) }\<close>.\<close>

definition tryCatch :: "'a prog \<Rightarrow> (err \<Rightarrow> 'a prog) \<Rightarrow> 'a prog" where
  "tryCatch m h w =
     (case m w of
        (Throw e, w') \<Rightarrow> h e w'
      | r \<Rightarrow> r)"

text \<open>
  Modelled from the spec: \<open>ScrapingUtils.delay(ms)\<close>, which is not part of the sources at hand;
  a blocking wait of fixed duration.
\<close>

definition delay :: "nat \<Rightarrow> world \<Rightarrow> world" where
  "delay ms w = w\<lparr>clock := clock w + ms, trace := trace w @ [Delayed ms]\<rparr>"

text \<open>
  \<open>authorizedGet(path, options)\<close>: the token and the HTTP exchange belong to the environment.
\<close>

definition authorizedGet :: "env \<Rightarrow> request \<Rightarrow> world \<Rightarrow> response \<times> world" where
  "authorizedGet env rq w =
     (upstream env (requests w) rq,
      w\<lparr>requests := requests w + 1, trace := trace w @ [Requested rq]\<rparr>)"

text \<open>\<open>Math.floor(Math.random() * n)\<close>.\<close>

definition drawBelow :: "env \<Rightarrow> nat \<Rightarrow> world \<Rightarrow> nat \<times> world" where
  "drawBelow env n w = (random env (draws w) mod n, w\<lparr>draws := draws w + 1\<rparr>)"

text \<open>
  An operation on the document store or on a collaborator: it rejects when the environment
  says so, and otherwise acts on the world.
\<close>

definition dbOp :: "env \<Rightarrow> (world \<Rightarrow> 'a \<times> world) \<Rightarrow> 'a prog" where
  "dbOp env f w =
     (let w1 = w\<lparr>dbOps := dbOps w + 1\<rparr>
      in case fault env (dbOps w) of
           Some msg \<Rightarrow> (Throw (Err msg None), w1)
         | None \<Rightarrow> (case f w1 of (x, w2) \<Rightarrow> (Return x, w2)))"

section \<open>The source client of \<open>RedditScraper\<close>\<close>

record fetchOpts =
  limit :: nat
  sort :: string
  excludeStickied :: bool
  minCreatedUtc :: "int option"
  after :: "string option"

text \<open>A cursor is used when it is a non-empty string (\<open>if (nextAfter)\<close>).\<close>

definition truthy :: "string option \<Rightarrow> bool" where
  "truthy a = (case a of Some s \<Rightarrow> s \<noteq> [] | None \<Rightarrow> False)"

definition normalizedSort :: "string \<Rightarrow> string" where
  "normalizedSort s = (if s \<in> set [''hot'', ''new'', ''top'', ''rising''] then s else ''hot'')"

text \<open>
  \<open>minCreatedUtc && child.data.created_utc <= minCreatedUtc\<close>: the watermark applies when it
  is present and not 0.
\<close>

definition olderThanMin :: "int option \<Rightarrow> rpost \<Rightarrow> bool" where
  "olderThanMin m d = (case m of Some t \<Rightarrow> t \<noteq> 0 \<and> created_utc d \<le> t | None \<Rightarrow> False)"

text \<open>
  The inner loop of \<open>fetchRedditPosts\<close> over the children of one page, on the accumulated
  \<open>posts\<close> and the flag \<open>reachedOlderThanMin\<close>. Transforming a child draws a random index
  exactly when \<open>expandShortContent\<close> is reached for it (\<open>drawFor\<close>); no draw is made, and the
  index is not read, otherwise.
\<close>

definition drawFor :: "env \<Rightarrow> rpost \<Rightarrow> world \<Rightarrow> nat \<times> world" where
  "drawFor env d w = (if reachesRandom (passedBody d) then drawBelow env 4 w else (0, w))"

fun pushChildren ::
  "env \<Rightarrow> fetchOpts \<Rightarrow> rpost option list \<Rightarrow> item list \<Rightarrow> bool \<Rightarrow> world \<Rightarrow> item list \<times> bool \<times> world" where
  "pushChildren env opts [] ps reached w = (ps, reached, w)"
| "pushChildren env opts (child # rest) ps reached w =
     (case child of
        None \<Rightarrow> pushChildren env opts rest ps reached w
      | Some d \<Rightarrow>
          if excludeStickied opts \<and> rp_stickied d then pushChildren env opts rest ps reached w
          else if olderThanMin (minCreatedUtc opts) d then pushChildren env opts rest ps True w
          else (case drawFor env d w of
                  (r, w') \<Rightarrow>
                    let ps' = ps @ [transformRedditPost (isImageUrl env) r d]
                    in if length ps' \<ge> limit opts then (ps', reached, w')
                       else pushChildren env opts rest ps' reached w'))"

text \<open>\<open>response.data?.data?.children || []\<close> and \<open>response.data?.data?.after\<close>.\<close>

definition childrenOf :: "payload \<Rightarrow> rpost option list" where
  "childrenOf pl = (case pl of PostListing cs a \<Rightarrow> cs | _ \<Rightarrow> [])"

definition afterOf :: "payload \<Rightarrow> string option" where
  "afterOf pl = (case pl of PostListing cs a \<Rightarrow> a | _ \<Rightarrow> None)"

definition rateLimitDelay :: nat where
  "rateLimitDelay = 2000"

text \<open>
  \<open>fetchRedditPosts\<close>: the \<open>while\<close> loop on \<open>posts\<close>, \<open>nextAfter\<close> and
  \<open>reachedOlderThanMin\<close>, and the handler of its \<open>try\<close>. On status 429 the handler waits and
  returns the result of a new call of \<open>fetchRedditPosts\<close> with the same options and
  \<open>after: nextAfter\<close>; a new call starts with an empty \<open>posts\<close> and a false flag. The first
  argument bounds the requests still allowed.
\<close>

fun fetchLoop ::
  "nat \<Rightarrow> env \<Rightarrow> string \<Rightarrow> fetchOpts \<Rightarrow> item list \<Rightarrow> string option \<Rightarrow> bool \<Rightarrow> (item list \<times> string option) prog" where
  "fetchLoop 0 env sr opts ps nextAfter reached w = (Diverge, w)"
| "fetchLoop (Suc n) env sr opts ps nextAfter reached w =
     (if length ps < limit opts \<and> \<not> reached then
        (case authorizedGet env
                (GetListing sr (normalizedSort (sort opts)) (min (limit opts - length ps) 25)
                   (if truthy nextAfter then nextAfter else None)) w of
           (Failed e, w1) \<Rightarrow>
             if status e = Some 429
             then fetchLoop n env sr opts [] nextAfter False (delay 5000 w1)
             else (Throw e, w1)
         | (Ok pl, w1) \<Rightarrow>
             if childrenOf pl = [] then (Return (ps, nextAfter), w1)
             else (case pushChildren env opts (childrenOf pl) ps reached w1 of
                     (ps', reached', w2) \<Rightarrow>
                       if \<not> truthy (afterOf pl) then (Return (ps', afterOf pl), w2)
                       else fetchLoop n env sr opts ps' (afterOf pl) reached' (delay rateLimitDelay w2)))
      else (Return (ps, nextAfter), w))"

definition fetchRedditPosts :: "env \<Rightarrow> string \<Rightarrow> fetchOpts \<Rightarrow> (item list \<times> string option) prog" where
  "fetchRedditPosts env sr opts = fetchLoop (fuel env) env sr opts [] (after opts) False"

text \<open>
  \<open>extractSubreddit(url)\<close>: the first place where \<open>/r/\<close> is followed by at least one character
  other than \<open>/\<close> and \<open>?\<close>, and the longest run of such characters there.
\<close>

fun extractSubreddit :: "string \<Rightarrow> string option" where
  "extractSubreddit [] = None"
| "extractSubreddit (c # cs) =
     (let name = takeWhile (\<lambda>x. x \<noteq> CHR ''/'' \<and> x \<noteq> CHR ''?'') (drop 3 (c # cs))
      in if startsWith (c # cs) ''/r/'' \<and> name \<noteq> [] then Some name else extractSubreddit cs)"

record scrapeConfig =
  sc_sourceUrl :: string
  sc_keywords :: "string list"
  sc_maxPosts :: nat
  sc_sort :: string
  sc_excludeStickied :: bool
  sc_minCreatedUtc :: "int option"

text \<open>\<open>scrapeContent(config)\<close>.\<close>

definition scrapeContent :: "env \<Rightarrow> scrapeConfig \<Rightarrow> item list prog" where
  "scrapeContent env config =
     tryCatch
       (case extractSubreddit (sc_sourceUrl config) of
          None \<Rightarrow> throw (Err ''Invalid Reddit URL - could not extract subreddit'' None)
        | Some sr \<Rightarrow>
            bindP (fetchRedditPosts env sr
                     \<lparr>limit = sc_maxPosts config, sort = sc_sort config,
                      excludeStickied = sc_excludeStickied config,
                      minCreatedUtc = sc_minCreatedUtc config, after = None\<rparr>)
              (\<lambda>(ps, nextAfter).
                 let filteredPosts =
                       (if length (sc_keywords config) > 0
                        then filter (\<lambda>p. matchesKeywords p (sc_keywords config)) ps
                        else ps)
                 in ret (take (sc_maxPosts config) filteredPosts)))
       (\<lambda>error. throw (Err (''Reddit scraping failed: '' @ message error) None))"

text \<open>The comment in the standard format.\<close>

record comment =
  cm_id :: string
  cm_content :: string
  cm_author :: string
  cm_createdAt :: int
  cm_likes :: int
  parentId :: string
  cm_platform :: string

definition transformRedditComment :: "rcomment \<Rightarrow> comment" where
  "transformRedditComment redditComment =
     \<lparr>cm_id = rc_id redditComment,
      cm_content = body redditComment,
      cm_author = rc_author redditComment,
      cm_createdAt = rc_created_utc redditComment * 1000,
      cm_likes = rc_ups redditComment,
      parentId = parent_id redditComment,
      cm_platform = ''reddit''\<rparr>"

text \<open>The filter on the children: \<open>child.data && child.data.body && child.data.body !== "[deleted]"\<close>.\<close>

definition keepComment :: "rcomment option \<Rightarrow> bool" where
  "keepComment child = (case child of None \<Rightarrow> False | Some d \<Rightarrow> body d \<noteq> [] \<and> body d \<noteq> ''[deleted]'')"

text \<open>What the \<open>try\<close> block of \<open>scrapePostComments\<close> returns on a response.\<close>

definition commentsOf :: "nat \<Rightarrow> payload \<Rightarrow> comment list" where
  "commentsOf maxComments pl =
     (case pl of
        ListingArray ls \<Rightarrow>
          if length ls < 2 then []
          else (case ls ! 1 of
                  None \<Rightarrow> []
                | Some children \<Rightarrow>
                    take maxComments
                      (map transformRedditComment (concat (map (\<lambda>c. case c of None \<Rightarrow> [] | Some d \<Rightarrow> [d])
                         (filter keepComment children)))))
      | _ \<Rightarrow> [])"

text \<open>
  \<open>scrapePostComments(postId, maxComments)\<close>; the first argument bounds the requests still
  allowed.
\<close>

fun commentLoop :: "nat \<Rightarrow> env \<Rightarrow> string \<Rightarrow> nat \<Rightarrow> comment list prog" where
  "commentLoop 0 env postId maxComments w = (Diverge, w)"
| "commentLoop (Suc n) env postId maxComments w =
     (case authorizedGet env (GetComments postId maxComments) w of
        (Ok pl, w1) \<Rightarrow> (Return (commentsOf maxComments pl), w1)
      | (Failed e, w1) \<Rightarrow>
          if status e = Some 429
          then commentLoop n env postId maxComments (delay 10000 w1)
          else (Return [], w1))"

definition scrapePostComments :: "env \<Rightarrow> string \<Rightarrow> nat \<Rightarrow> comment list prog" where
  "scrapePostComments env postId maxComments = commentLoop (fuel env) env postId maxComments"

section \<open>The document store\<close>

text \<open>A random draw, and the clock (\<open>new Date()\<close>), as steps of a program.\<close>

definition draw :: "env \<Rightarrow> nat \<Rightarrow> nat prog" where
  "draw env n w = (case drawBelow env n w of (r, w') \<Rightarrow> (Return r, w'))"

definition now :: "nat prog" where
  "now w = (Return (clock w), w)"

text \<open>
  The query \<open>{$or: [{platform, originalId: c.id}, {sourceUrl: c.url}]}\<close> on a document, and
  \<open>Post.exists\<close> / \<open>Post.findOne\<close> with it, of which the callers use the truth value only.
\<close>

definition postMatches :: "string \<Rightarrow> item \<Rightarrow> post \<Rightarrow> bool" where
  "postMatches pf c p = ((p_platform p = pf \<and> originalId p = item_id c) \<or> sourceUrl p = url c)"

definition postExists :: "env \<Rightarrow> string \<Rightarrow> item \<Rightarrow> bool prog" where
  "postExists env pf c = dbOp env (\<lambda>w. (list_ex (postMatches pf c) (posts w), w))"

text \<open>\<open>Post.findOne({platform, originalId})\<close>.\<close>

definition findPostByOriginal :: "env \<Rightarrow> string \<Rightarrow> string \<Rightarrow> post option prog" where
  "findPostByOriginal env pf oid =
     dbOp env (\<lambda>w. (find (\<lambda>p. p_platform p = pf \<and> originalId p = oid) (posts w), w))"

text \<open>
  \<open>Post.create(doc)\<close>: the store rejects a document whose \<open>sourceUrl\<close>, or whose pair of
  \<open>platform\<close> and \<open>originalId\<close>, is already present (the uniqueness constraints), and any
  other rejection (validation, connection) is a fault of the environment.
\<close>

definition createPost :: "env \<Rightarrow> post \<Rightarrow> post prog" where
  "createPost env doc =
     bindP (dbOp env (\<lambda>w. (list_ex (\<lambda>p. sourceUrl p = sourceUrl doc
                                        \<or> (p_platform p = p_platform doc \<and> originalId p = originalId doc))
                               (posts w), w)))
       (\<lambda>duplicate.
          if duplicate then throw (Err ''E11000 duplicate key error'' None)
          else (\<lambda>w. (Return doc, w\<lparr>posts := posts w @ [doc]\<rparr>)))"

text \<open>\<open>Community.find({isActive: true, "scrapingPlatforms.isActive": true})\<close>.\<close>

definition findActiveCommunities :: "env \<Rightarrow> community list prog" where
  "findActiveCommunities env =
     dbOp env (\<lambda>w. (filter (\<lambda>c. c_isActive c \<and> list_ex pc_isActive (scrapingPlatforms c)) (communities w), w))"

text \<open>\<open>Community.findById(communityId)\<close>.\<close>

definition findCommunityById :: "env \<Rightarrow> string \<Rightarrow> community option prog" where
  "findCommunityById env cid = dbOp env (\<lambda>w. (find (\<lambda>c. c_id c = cid) (communities w), w))"

text \<open>\<open>User.find({userType: "platform"}).select("_id")\<close>.\<close>

definition findPlatformUsers :: "env \<Rightarrow> string list prog" where
  "findPlatformUsers env = dbOp env (\<lambda>w. (platformUsers w, w))"

text \<open>
  \<open>Community.findByIdAndUpdate(communityId, {lastScrapedAt: new Date(), $inc: {postCount: n}})\<close>:
  the first document with that id is updated.
\<close>

fun updateFirst :: "('a \<Rightarrow> bool) \<Rightarrow> ('a \<Rightarrow> 'a) \<Rightarrow> 'a list \<Rightarrow> 'a list" where
  "updateFirst P f [] = []"
| "updateFirst P f (x # xs) = (if P x then f x # xs else x # updateFirst P f xs)"

definition markScraped :: "env \<Rightarrow> string \<Rightarrow> nat \<Rightarrow> unit prog" where
  "markScraped env cid n =
     dbOp env (\<lambda>w. ((), w\<lparr>communities :=
        updateFirst (\<lambda>c. c_id c = cid)
          (\<lambda>c. c\<lparr>lastScrapedAt := Some (int (clock w)), postCount := postCount c + n\<rparr>)
          (communities w)\<rparr>))"

text \<open>
  The collaborators \<open>autoLikeService.assignInitialLikesToPost\<close> and
  \<open>commentGenerator.generateCommentsForPost\<close> are not part of the sources at hand. They act on
  documents outside this model and may fail.
\<close>

definition assignInitialLikesToPost :: "env \<Rightarrow> post \<Rightarrow> unit prog" where
  "assignInitialLikesToPost env p = dbOp env (\<lambda>w. ((), w))"

definition generateCommentsForPost :: "env \<Rightarrow> post \<Rightarrow> nat \<Rightarrow> unit prog" where
  "generateCommentsForPost env p n = dbOp env (\<lambda>w. ((), w))"

section \<open>\<open>ScraperManager\<close>\<close>

text \<open>A \<open>for ... of\<close> loop without \<open>break\<close> over a list, on the variables it updates.\<close>

fun forEach :: "('a \<Rightarrow> 's \<Rightarrow> 's prog) \<Rightarrow> 'a list \<Rightarrow> 's \<Rightarrow> 's prog" where
  "forEach step [] s = ret s"
| "forEach step (x # xs) s = bindP (step x s) (forEach step xs)"

text \<open>
  \<open>Promise.all\<close> over operations that are all started: the effects of all of them take place, and
  the first rejection, if any, is the result.
\<close>

fun promiseAll :: "'a prog list \<Rightarrow> 'a list prog" where
  "promiseAll [] w = (Return [], w)"
| "promiseAll (p # ps) w =
     (case p w of
        (r, w1) \<Rightarrow>
          (case promiseAll ps w1 of
             (rs, w2) \<Rightarrow>
               ((case r of
                   Return x \<Rightarrow> (case rs of Return xs \<Rightarrow> Return (x # xs) | Throw e \<Rightarrow> Throw e | Diverge \<Rightarrow> Diverge)
                 | Throw e \<Rightarrow> Throw e
                 | Diverge \<Rightarrow> Diverge), w2)))"

definition toUnixSeconds :: "int \<Rightarrow> int" where
  "toUnixSeconds ms = ms div 1000"

text \<open>\<open>filterNewContent(items, platform)\<close>.\<close>

definition filterNewContent :: "env \<Rightarrow> item list \<Rightarrow> string \<Rightarrow> item list prog" where
  "filterNewContent env items pf =
     (if length items = 0 then ret []
      else bindP (promiseAll (map (\<lambda>c. bindP (postExists env pf c)
                                          (\<lambda>exists. let isSticky = (stickied c \<or> pinned c)
                                                     in ret (c, \<not> exists \<and> \<not> isSticky))) items))
             (\<lambda>results. ret (map fst (filter snd results))))"

record createResult =
  postsCreated :: nat
  createdItems :: "item list"
  skippedExisting :: nat
  skippedLowQuality :: nat

text \<open>\<open>community.scrapingConfig?.qualityThreshold || d\<close> and \<open>...?.maxPostsPerScrape || d\<close>.\<close>

definition thresholdOr :: "real \<Rightarrow> community \<Rightarrow> real" where
  "thresholdOr d community =
     (case c_scrapingConfig community of
        None \<Rightarrow> d
      | Some sc \<Rightarrow> (case qualityThreshold sc of None \<Rightarrow> d | Some t \<Rightarrow> if t = 0 then d else t))"

definition maxPostsOr :: "nat \<Rightarrow> community \<Rightarrow> nat" where
  "maxPostsOr d community =
     (case c_scrapingConfig community of
        None \<Rightarrow> d
      | Some sc \<Rightarrow> (case maxPostsPerScrape sc of None \<Rightarrow> d | Some n \<Rightarrow> if n = 0 then d else n))"

text \<open>\<open>platformUsers[i]._id\<close>: reading \<open>_id\<close> of a missing element throws.\<close>

definition userAt :: "string list \<Rightarrow> nat \<Rightarrow> string prog" where
  "userAt users i =
     (if i < length users then ret (users ! i)
      else throw (Err ''Cannot read properties of undefined (reading '_id')'' None))"

text \<open>
  The document that \<open>createPostsFromScrapedContent\<close> passes to \<open>Post.create\<close>. The fields
  it leaves out get the defaults of the schema: 0.5 for the authenticity score and
  \<open>general\<close> for the content type.
\<close>

definition scrapedPostDoc ::
  "env \<Rightarrow> community \<Rightarrow> string \<Rightarrow> item \<Rightarrow> real \<Rightarrow> string \<Rightarrow> nat \<Rightarrow> nat \<Rightarrow> post" where
  "scrapedPostDoc env community pf c qualityScore' randomUser randomLikeCount t =
     (let processedContent = processContent env c in
      \<lparr>p_title = pr_title processedContent,
       p_content = pr_content processedContent,
       sourceUrl = url c,
       p_platform = pf,
       originalId = item_id c,
       p_community = c_id community,
       owner = randomUser,
       p_engagementMetrics =
         \<lparr>em_likes = randomLikeCount, em_comments = 0, em_shares = shares c, em_views = views c\<rparr>,
       p_scrapingMetadata =
         \<lparr>scrapedAt = t,
          originalAuthor = author c,
          originalCreatedAt = createdAt c,
          sm_qualityScore = qualityScore',
          sm_authenticityScore = 0.5,
          sm_tags = pr_tags processedContent,
          contentType = ''general'',
          isAuthentic = True,
          validationMethod = ''real_api_scraping''\<rparr>,
       p_thumbnail = thumbnail c,
       p_mediaUrls = mediaUrls c,
       p_status = ''active''\<rparr>)"

text \<open>
  The body of the loop of \<open>createPostsFromScrapedContent\<close> for one item, on the four
  variables of the function. The counters are updated before the initial likes are assigned,
  so a failure there leaves them updated; every error is caught and logged.
\<close>

definition createFromScraped ::
  "env \<Rightarrow> community \<Rightarrow> string \<Rightarrow> string list \<Rightarrow> item \<Rightarrow> createResult \<Rightarrow> createResult prog" where
  "createFromScraped env community pf users c acc =
     tryCatch
       (bindP (postExists env pf c) (\<lambda>existingPost.
          if existingPost then ret (acc\<lparr>skippedExisting := skippedExisting acc + 1\<rparr>)
          else let qualityScore' = calculateQualityScore env c in
            if qualityScore' < thresholdOr 0.5 community
            then ret (acc\<lparr>skippedLowQuality := skippedLowQuality acc + 1\<rparr>)
            else
              bindP (draw env (length users)) (\<lambda>i.
              bindP (draw env 11) (\<lambda>r.
              let randomLikeCount = r + 5 in
              bindP (userAt users i) (\<lambda>randomUser.
              bindP now (\<lambda>t.
              bindP (createPost env
                       (scrapedPostDoc env community pf c qualityScore' randomUser randomLikeCount t))
                (\<lambda>post.
              let acc' = acc\<lparr>postsCreated := postsCreated acc + 1,
                             createdItems := createdItems acc @ [c]\<rparr> in
              tryCatch (bindP (assignInitialLikesToPost env post) (\<lambda>u. ret acc'))
                (\<lambda>postError. ret acc'))))))))
       (\<lambda>postError. ret acc)"

definition noneCreated :: createResult where
  "noneCreated = \<lparr>postsCreated = 0, createdItems = [], skippedExisting = 0, skippedLowQuality = 0\<rparr>"

definition createPostsFromScrapedContent ::
  "env \<Rightarrow> item list \<Rightarrow> community \<Rightarrow> string \<Rightarrow> string list \<Rightarrow> createResult prog" where
  "createPostsFromScrapedContent env scrapedContent community pf users =
     forEach (createFromScraped env community pf users) scrapedContent noneCreated"

text \<open>
  The document that \<open>createPostsFromAuthenticContent\<close> passes to \<open>Post.create\<close>. A missing
  quality or authenticity score gets the default of the schema, 0.5, and a missing content type
  the default \<open>general\<close>.
\<close>

definition authenticPostDoc ::
  "env \<Rightarrow> community \<Rightarrow> string \<Rightarrow> item \<Rightarrow> string \<Rightarrow> nat \<Rightarrow> nat \<Rightarrow> post" where
  "authenticPostDoc env community pf c randomUser randomLikeCount t =
     (let processedContent = processAuthenticContent env c in
      \<lparr>p_title = pr_title processedContent,
       p_content = pr_content processedContent,
       sourceUrl = url c,
       p_platform = pf,
       originalId = item_id c,
       p_community = c_id community,
       owner = randomUser,
       p_engagementMetrics =
         \<lparr>em_likes = randomLikeCount, em_comments = 0, em_shares = shares c, em_views = views c\<rparr>,
       p_scrapingMetadata =
         \<lparr>scrapedAt = t,
          originalAuthor = author c,
          originalCreatedAt = createdAt c,
          sm_qualityScore = (case qualityScore c of Some q \<Rightarrow> q | None \<Rightarrow> 0.5),
          sm_authenticityScore = (case authenticityScore c of Some a \<Rightarrow> a | None \<Rightarrow> 0.5),
          sm_tags = pr_tags processedContent,
          contentType = (case pr_contentType processedContent of Some ct \<Rightarrow> ct | None \<Rightarrow> ''general''),
          isAuthentic = True,
          validationMethod = ''enhanced_validation''\<rparr>,
       p_thumbnail = thumbnail c,
       p_mediaUrls = pr_mediaUrls processedContent,
       p_status = ''active''\<rparr>)"

text \<open>The body of the loop of \<open>createPostsFromAuthenticContent\<close> for one item.\<close>

definition createFromAuthentic ::
  "env \<Rightarrow> community \<Rightarrow> string \<Rightarrow> string list \<Rightarrow> item \<Rightarrow> createResult \<Rightarrow> createResult prog" where
  "createFromAuthentic env community pf users c acc =
     tryCatch
       (bindP (postExists env pf c) (\<lambda>exists.
          if exists then ret (acc\<lparr>skippedExisting := skippedExisting acc + 1\<rparr>)
          else
            bindP (draw env (length users)) (\<lambda>i.
            bindP (draw env 11) (\<lambda>r.
            let randomLikeCount = r + 5 in
            bindP (userAt users i) (\<lambda>randomUser.
            bindP now (\<lambda>t.
            bindP (createPost env (authenticPostDoc env community pf c randomUser randomLikeCount t))
              (\<lambda>post.
            let acc' = acc\<lparr>postsCreated := postsCreated acc + 1,
                           createdItems := createdItems acc @ [c]\<rparr> in
            tryCatch (bindP (assignInitialLikesToPost env post) (\<lambda>u. ret acc'))
              (\<lambda>postError. ret acc'))))))))
       (\<lambda>postError. ret acc)"

definition createPostsFromAuthenticContent ::
  "env \<Rightarrow> item list \<Rightarrow> community \<Rightarrow> string \<Rightarrow> string list \<Rightarrow> createResult prog" where
  "createPostsFromAuthenticContent env authenticContent community pf users =
     forEach (createFromAuthentic env community pf users) authenticContent noneCreated"

text \<open>
  \<open>validateAuthenticContent(scrapedContent, community, maxPosts)\<close>: the loop on
  \<open>authenticContent\<close>, which stops once \<open>maxPosts\<close> items are accepted. The body yields the
  list and whether the loop breaks.
\<close>

definition validateOne :: "env \<Rightarrow> community \<Rightarrow> nat \<Rightarrow> item \<Rightarrow> item list \<Rightarrow> (item list \<times> bool) prog" where
  "validateOne env community maxPosts c authenticContent =
     tryCatch
       (bindP (postExists env (platform c) c) (\<lambda>existingPost.
          if existingPost then ret (authenticContent, False)
          else let isAuthenticResult = validateAuthenticity env c in
            if \<not> valid isAuthenticResult then ret (authenticContent, False)
            else let qualityScore' = calculateQualityScore env c;
                     minQualityScore = thresholdOr 0.6 community in
              if qualityScore' < minQualityScore then ret (authenticContent, False)
              else let authenticContent' =
                         authenticContent @ [c\<lparr>qualityScore := Some qualityScore',
                                                      authenticityScore := Some (v_score isAuthenticResult)\<rparr>]
                   in ret (authenticContent', length authenticContent' \<ge> maxPosts)))
       (\<lambda>error. ret (authenticContent, False))"

fun validateLoop :: "env \<Rightarrow> community \<Rightarrow> nat \<Rightarrow> item list \<Rightarrow> item list \<Rightarrow> item list prog" where
  "validateLoop env community maxPosts [] authenticContent = ret authenticContent"
| "validateLoop env community maxPosts (c # rest) authenticContent =
     bindP (validateOne env community maxPosts c authenticContent)
       (\<lambda>(authenticContent', stop).
          if stop then ret authenticContent'
          else validateLoop env community maxPosts rest authenticContent')"

definition validateAuthenticContent :: "env \<Rightarrow> item list \<Rightarrow> community \<Rightarrow> nat \<Rightarrow> item list prog" where
  "validateAuthenticContent env scrapedContent community maxPosts =
     validateLoop env community maxPosts scrapedContent []"

text \<open>\<open>generateCommentsForCreatedPosts(createdItems, platform)\<close>.\<close>

definition generateCommentsFor :: "env \<Rightarrow> string \<Rightarrow> item \<Rightarrow> unit \<Rightarrow> unit prog" where
  "generateCommentsFor env pf c u =
     tryCatch
       (bindP (findPostByOriginal env pf (item_id c)) (\<lambda>found.
          case found of
            None \<Rightarrow> ret ()
          | Some p \<Rightarrow>
              bindP (draw env 6) (\<lambda>r.
              let commentCount = r + 10 in
              bindP (generateCommentsForPost env p commentCount) (\<lambda>u.
              (\<lambda>w. (Return (), delay 2000 w))))))
       (\<lambda>error. ret ())"

definition generateCommentsForCreatedPosts :: "env \<Rightarrow> item list \<Rightarrow> string \<Rightarrow> unit prog" where
  "generateCommentsForCreatedPosts env items pf =
     tryCatch
       (if \<not> openaiKey env then ret ()
        else forEach (generateCommentsFor env pf) items ())
       (\<lambda>error. ret ())"

record platformResult =
  pr_platform :: string
  pr_postsCreated :: nat
  pr_skippedExisting :: nat
  pr_skippedLowQuality :: nat
  success :: bool
  pr_error :: "string option"

record communityResult =
  communityId :: string
  communityName :: string
  cr_postsCreated :: nat
  platformResults :: "platformResult list"

text \<open>
  The \<open>try\<close> block for one source configuration in \<open>scrapeCommunity\<close> (bulk mode), in
  \<open>scrapeSinglePostPerPlatform\<close> and in \<open>scrapeAuthenticContent\<close>.
\<close>

definition afterCreation :: "env \<Rightarrow> string \<Rightarrow> createResult \<Rightarrow> createResult prog" where
  "afterCreation env pf res =
     bindP (if length (createdItems res) > 0
            then generateCommentsForCreatedPosts env (createdItems res) pf
            else ret ())
       (\<lambda>u. ret res)"

definition bulkStage :: "env \<Rightarrow> community \<Rightarrow> string list \<Rightarrow> platformConfig \<Rightarrow> createResult prog" where
  "bulkStage env community users platformConfig =
     (let since = map_option toUnixSeconds (lastScrapedAt community) in
      bindP (scrapeContent env
               \<lparr>sc_sourceUrl = pc_sourceUrl platformConfig,
                sc_keywords = pc_keywords platformConfig,
                sc_maxPosts = maxPostsOr 50 community,
                sc_sort = ''new'',
                sc_excludeStickied = True,
                sc_minCreatedUtc = since\<rparr>) (\<lambda>scrapedContent.
      bindP (filterNewContent env scrapedContent (pc_platform platformConfig)) (\<lambda>newOnly.
      bindP (createPostsFromScrapedContent env newOnly community (pc_platform platformConfig) users)
        (afterCreation env (pc_platform platformConfig)))))"

definition singleStage :: "env \<Rightarrow> community \<Rightarrow> string list \<Rightarrow> platformConfig \<Rightarrow> createResult prog" where
  "singleStage env community users platformConfig =
     (let since = map_option toUnixSeconds (lastScrapedAt community) in
      bindP (scrapeContent env
               \<lparr>sc_sourceUrl = pc_sourceUrl platformConfig,
                sc_keywords = pc_keywords platformConfig,
                sc_maxPosts = 5,
                sc_sort = ''new'',
                sc_excludeStickied = True,
                sc_minCreatedUtc = since\<rparr>) (\<lambda>scrapedContent.
      bindP (filterNewContent env scrapedContent (pc_platform platformConfig)) (\<lambda>filtered.
      let newOnly = take 1 filtered in
      bindP (createPostsFromScrapedContent env newOnly community (pc_platform platformConfig) users)
        (afterCreation env (pc_platform platformConfig)))))"

definition authenticStage ::
  "env \<Rightarrow> nat \<Rightarrow> community \<Rightarrow> string list \<Rightarrow> platformConfig \<Rightarrow> createResult prog" where
  "authenticStage env postsPerPlatform community users platformConfig =
     bindP (scrapeContent env
              \<lparr>sc_sourceUrl = pc_sourceUrl platformConfig,
               sc_keywords = pc_keywords platformConfig,
               sc_maxPosts = postsPerPlatform * 3,
               sc_sort = ''new'',
               sc_excludeStickied = True,
               sc_minCreatedUtc = None\<rparr>) (\<lambda>scrapedContent.
     bindP (validateAuthenticContent env scrapedContent community postsPerPlatform) (\<lambda>authenticContent.
     bindP (createPostsFromAuthenticContent env authenticContent community (pc_platform platformConfig) users)
       (afterCreation env (pc_platform platformConfig))))"

text \<open>
  One round of the loop over \<open>community.scrapingPlatforms\<close>, on \<open>totalPostsCreated\<close> and
  \<open>platformResults\<close>: inactive configurations and platforms other than \<open>reddit\<close> are
  skipped, and an error of the \<open>try\<close> block is recorded. (A scraper exists for \<open>reddit\<close>, so
  the check of \<open>this.scrapers[platform]\<close> never skips.)
\<close>

definition platformStep ::
  "(platformConfig \<Rightarrow> createResult prog) \<Rightarrow> platformConfig \<Rightarrow> nat \<times> platformResult list
     \<Rightarrow> (nat \<times> platformResult list) prog" where
  "platformStep stage platformConfig acc =
     (case acc of (totalPostsCreated', results) \<Rightarrow>
        if \<not> pc_isActive platformConfig then ret acc
        else if pc_platform platformConfig \<noteq> ''reddit'' then ret acc
        else tryCatch
               (bindP (stage platformConfig) (\<lambda>res.
                  ret (totalPostsCreated' + postsCreated res,
                       results @ [\<lparr>pr_platform = pc_platform platformConfig,
                                   pr_postsCreated = postsCreated res,
                                   pr_skippedExisting = skippedExisting res,
                                   pr_skippedLowQuality = skippedLowQuality res,
                                   success = True,
                                   pr_error = None\<rparr>])))
               (\<lambda>platformError.
                  ret (totalPostsCreated',
                       results @ [\<lparr>pr_platform = pc_platform platformConfig,
                                   pr_postsCreated = 0,
                                   pr_skippedExisting = 0,
                                   pr_skippedLowQuality = 0,
                                   success = False,
                                   pr_error = Some (message platformError)\<rparr>])))"

text \<open>
  The frame shared, statement for statement, by \<open>scrapeCommunity\<close>,
  \<open>scrapeSinglePostPerPlatform\<close> and \<open>scrapeAuthenticContent\<close>: look the community up, get
  the platform users, run the loop, update the community, return the result. Its outer
  \<open>catch\<close> logs and rethrows.
\<close>

definition communityRun ::
  "env \<Rightarrow> (community \<Rightarrow> string list \<Rightarrow> platformConfig \<Rightarrow> createResult prog) \<Rightarrow> string \<Rightarrow> communityResult prog" where
  "communityRun env stage cid =
     bindP (findCommunityById env cid) (\<lambda>found.
       case found of
         None \<Rightarrow> throw (Err ''Community not found'' None)
       | Some community \<Rightarrow>
           bindP (findPlatformUsers env) (\<lambda>users.
             if length users = 0 then throw (Err ''No platform users found for post assignment'' None)
             else
               bindP (forEach (platformStep (stage community users)) (scrapingPlatforms community) (0, []))
                 (\<lambda>(totalPostsCreated', results).
               bindP (markScraped env cid totalPostsCreated') (\<lambda>u.
               ret \<lparr>communityId = cid, communityName = c_name community,
                    cr_postsCreated = totalPostsCreated', platformResults = results\<rparr>))))"

definition scrapeCommunity :: "env \<Rightarrow> string \<Rightarrow> communityResult prog" where
  "scrapeCommunity env cid = communityRun env (bulkStage env) cid"

definition scrapeSinglePostPerPlatform :: "env \<Rightarrow> string \<Rightarrow> communityResult prog" where
  "scrapeSinglePostPerPlatform env cid = communityRun env (singleStage env) cid"

definition scrapeAuthenticContent :: "env \<Rightarrow> string \<Rightarrow> nat \<Rightarrow> communityResult prog" where
  "scrapeAuthenticContent env cid postsPerPlatform = communityRun env (authenticStage env postsPerPlatform) cid"

record sweepResult =
  totalCommunities :: nat
  successfulScrapes :: nat
  failedScrapes :: nat
  totalPostsCreated :: nat
  errors :: "(string \<times> string) list"

text \<open>
  One round of the loop of a sweep over the active communities, and the two entrypoints
  \<open>scrapeAllCommunities\<close> and \<open>scrapeSinglePostFromAllCommunities\<close>; their outer \<open>catch\<close> logs
  and rethrows.
\<close>

definition sweepStep :: "(string \<Rightarrow> communityResult prog) \<Rightarrow> community \<Rightarrow> sweepResult \<Rightarrow> sweepResult prog" where
  "sweepStep run community results =
     tryCatch
       (bindP (run (c_id community)) (\<lambda>communityResult.
          ret (results\<lparr>successfulScrapes := successfulScrapes results + 1,
                       totalPostsCreated := totalPostsCreated results + cr_postsCreated communityResult\<rparr>)))
       (\<lambda>error.
          ret (results\<lparr>failedScrapes := failedScrapes results + 1,
                       errors := errors results @ [(c_name community, message error)]\<rparr>))"

definition sweep :: "env \<Rightarrow> (string \<Rightarrow> communityResult prog) \<Rightarrow> sweepResult prog" where
  "sweep env run =
     bindP (findActiveCommunities env) (\<lambda>activeCommunities.
       forEach (sweepStep run) activeCommunities
         \<lparr>totalCommunities = length activeCommunities, successfulScrapes = 0, failedScrapes = 0,
          totalPostsCreated = 0, errors = []\<rparr>)"

definition scrapeAllCommunities :: "env \<Rightarrow> sweepResult prog" where
  "scrapeAllCommunities env = sweep env (scrapeCommunity env)"

definition scrapeSinglePostFromAllCommunities :: "env \<Rightarrow> sweepResult prog" where
  "scrapeSinglePostFromAllCommunities env = sweep env (scrapeSinglePostPerPlatform env)"

section \<open>Notions of the specification\<close>


text \<open>The world after a request has been issued.\<close>

definition requested :: "request \<Rightarrow> world \<Rightarrow> world" where
  "requested rq w = w\<lparr>requests := requests w + 1, trace := trace w @ [Requested rq]\<rparr>"

text \<open>What \<open>filterNewContent\<close> keeps, in terms of the query and the flags.\<close>

definition isNew :: "world \<Rightarrow> string \<Rightarrow> item \<Rightarrow> bool" where
  "isNew w pf c = (\<not> list_ex (postMatches pf c) (posts w) \<and> \<not> (stickied c \<or> pinned c))"

text \<open>
  Notions for the proofs about the pipeline. \<open>inv P w0 w\<close>: every post of \<open>w\<close> that is
  not a post of the earlier world \<open>w0\<close> satisfies \<open>P\<close>. \<open>frame I\<close>: the property \<open>I\<close> of
  worlds does not depend on the counters, the clock and the trace. \<open>establishes I m Q\<close>:
  from a world satisfying \<open>I\<close>, the program \<open>m\<close> ends, however it ends, in a world
  satisfying \<open>I\<close>, and a value it returns satisfies \<open>Q\<close>. \<open>noThrow m\<close>: \<open>m\<close> never
  throws.
\<close>

definition inv :: "(post \<Rightarrow> bool) \<Rightarrow> world \<Rightarrow> world \<Rightarrow> bool" where
  "inv P w0 w = (\<forall>p\<in>set (posts w). p \<in> set (posts w0) \<or> P p)"

definition frame :: "(world \<Rightarrow> bool) \<Rightarrow> bool" where
  "frame I = (\<forall>w a b c d e. I (w\<lparr>dbOps := a, draws := b, requests := c, clock := d, trace := e\<rparr>) = I w)"

definition establishes :: "(world \<Rightarrow> bool) \<Rightarrow> 'a prog \<Rightarrow> ('a \<Rightarrow> bool) \<Rightarrow> bool" where
  "establishes I m Q = (\<forall>w out w'. I w \<longrightarrow> m w = (out, w') \<longrightarrow> I w' \<and> (\<forall>x. out = Return x \<longrightarrow> Q x))"

definition noThrow :: "'a prog \<Rightarrow> bool" where
  "noThrow m = (\<forall>w e w'. m w \<noteq> (Throw e, w'))"

text \<open>The part of \<open>communityRun\<close> that follows the lookup of the community.\<close>

definition withCommunity ::
  "env \<Rightarrow> (community \<Rightarrow> string list \<Rightarrow> platformConfig \<Rightarrow> createResult prog) \<Rightarrow> string \<Rightarrow> community
     \<Rightarrow> communityResult prog" where
  "withCommunity env stage cid community =
           bindP (findPlatformUsers env) (\<lambda>users.
             if length users = 0 then throw (Err ''No platform users found for post assignment'' None)
             else
               bindP (forEach (platformStep (stage community users)) (scrapingPlatforms community) (0, []))
                 (\<lambda>(totalPostsCreated', results).
               bindP (markScraped env cid totalPostsCreated') (\<lambda>u.
               ret \<lparr>communityId = cid, communityName = c_name community,
                    cr_postsCreated = totalPostsCreated', platformResults = results\<rparr>)))"

text \<open>The configurations that the loop over \<open>community.scrapingPlatforms\<close> processes.\<close>

definition processed :: "platformConfig \<Rightarrow> bool" where
  "processed platformConfig = (pc_isActive platformConfig \<and> pc_platform platformConfig = ''reddit'')"

text \<open>The update of \<open>findByIdAndUpdate\<close> on the community document.\<close>

definition scrapedNow :: "nat \<Rightarrow> nat \<Rightarrow> community \<Rightarrow> community" where
  "scrapedNow t n c = c\<lparr>lastScrapedAt := Some (int t), postCount := postCount c + n\<rparr>"

text \<open>
  The entry that the \<open>catch\<close> of the loop over \<open>community.scrapingPlatforms\<close> pushes for a
  configuration whose \<open>try\<close> block threw.
\<close>

definition failed :: "platformConfig \<Rightarrow> err \<Rightarrow> platformResult" where
  "failed cfg e = \<lparr>pr_platform = pc_platform cfg, pr_postsCreated = 0, pr_skippedExisting = 0,
                   pr_skippedLowQuality = 0, success = False, pr_error = Some (message e)\<rparr>"

text \<open>
  The communities that a sweep iterates: the query
  \<open>{isActive: true, "scrapingPlatforms.isActive": true}\<close> of its entrypoints.
\<close>

definition activeCommunity :: "community \<Rightarrow> bool" where
  "activeCommunity c = (c_isActive c \<and> list_ex pc_isActive (scrapingPlatforms c))"

section \<open>Concrete inputs\<close>

definition world0 :: world where
  "world0 = \<lparr>posts = [], communities = [], platformUsers = [], clock = 0, requests = 0, dbOps = 0,
             draws = 0, trace = []\<rparr>"

definition rpost0 :: rpost where
  "rpost0 = \<lparr>rp_id = [], rp_title = None, selftext = [], permalink = Some [], rp_author = [],
     created_utc = 0, ups = 0, num_crossposts = 0, rp_thumbnail = [], rp_preview = None, rp_url = [],
     is_video = False, rp_fallback_url = None, is_gallery = False, rp_media_metadata = None,
     rp_subreddit = [], link_flair_text = [], rp_score = 0, upvote_ratio = 0, rp_stickied = False\<rparr>"

definition rcomment0 :: rcomment where
  "rcomment0 = \<lparr>rc_id = [], body = [], rc_author = [], rc_created_utc = 0, rc_ups = 0, parent_id = []\<rparr>"

text \<open>
  An environment in which the upstream answers nothing useful, nothing fails, every score is 1
  and the processors keep the item's texts.
\<close>

definition env0 :: env where
  "env0 = \<lparr>upstream = (\<lambda>n rq. Ok Malformed), fault = (\<lambda>n. None), random = (\<lambda>n. 0),
     calculateQualityScore = (\<lambda>i. 1),
     validateAuthenticity = (\<lambda>i. \<lparr>valid = True, reason = [], v_score = 1\<rparr>),
     processContent = (\<lambda>i. \<lparr>pr_title = title i, pr_content = content i, pr_tags = tags i,
                              pr_contentType = None, pr_mediaUrls = mediaUrls i\<rparr>),
     processAuthenticContent = (\<lambda>i. \<lparr>pr_title = title i, pr_content = content i, pr_tags = tags i,
                              pr_contentType = Some ''general'', pr_mediaUrls = mediaUrls i\<rparr>),
     isImageUrl = (\<lambda>u. False), openaiKey = False, fuel = Suc (Suc (Suc (Suc 0)))\<rparr>"





text \<open>
  Comments: the first request is rate limited; the second answers with five children, of which
  one is deleted, one has no data and one has no body.
\<close>

definition envComments :: env where
  "envComments = env0\<lparr>upstream := (\<lambda>n rq.
      if n = 0 then Failed (Err ''Request failed with status code 429'' (Some 429))
      else if n = 1 then Ok (ListingArray [None, Some
             [Some (rcomment0\<lparr>rc_id := ''c1'', body := ''Nice post''\<rparr>),
              Some (rcomment0\<lparr>rc_id := ''c2'', body := ''[deleted]''\<rparr>),
              None,
              Some (rcomment0\<lparr>rc_id := ''c3''\<rparr>),
              Some (rcomment0\<lparr>rc_id := ''c4'', body := ''Agreed''\<rparr>)]])
      else Failed (Err ''timeout of 15000ms exceeded'' None)), fuel := Suc (Suc 0)\<rparr>"

text \<open>
  A listing fetch with a limit of 3: the first page holds a stickied item and two others, the
  second request is rate limited, and a page of three further items follows the cursor.
\<close>

definition postSticky :: rpost where
  "postSticky = rpost0\<lparr>rp_id := ''s'', rp_title := Some ''Weekly thread'', rp_subreddit := ''business'',
                        rp_stickied := True\<rparr>"

definition postA :: rpost where
  "postA = rpost0\<lparr>rp_id := ''a'', rp_title := Some ''First'', rp_subreddit := ''business''\<rparr>"

definition postB :: rpost where
  "postB = rpost0\<lparr>rp_id := ''b'', rp_title := Some ''Second'', rp_subreddit := ''business''\<rparr>"

definition postD :: rpost where
  "postD = rpost0\<lparr>rp_id := ''d'', rp_title := Some ''Third'', rp_subreddit := ''business''\<rparr>"

definition postE :: rpost where
  "postE = rpost0\<lparr>rp_id := ''e'', rp_title := Some ''Fourth'', rp_subreddit := ''business''\<rparr>"

definition postF :: rpost where
  "postF = rpost0\<lparr>rp_id := ''f'', rp_title := Some ''Fifth'', rp_subreddit := ''business''\<rparr>"

definition upstreamRateLimited :: "nat \<Rightarrow> request \<Rightarrow> response" where
  "upstreamRateLimited n rq =
     (if n = 1 then Failed (Err ''Request failed with status code 429'' (Some 429))
      else (case rq of
              GetListing sr so k aft \<Rightarrow>
                if aft = None
                then Ok (PostListing (take k [Some postSticky, Some postA, Some postB]) (Some ''t3_b''))
                else Ok (PostListing (take k [Some postD, Some postE, Some postF]) None)
            | GetComments p m \<Rightarrow> Ok Malformed))"

definition envRateLimited :: env where
  "envRateLimited = env0\<lparr>upstream := upstreamRateLimited\<rparr>"

definition optsRateLimited :: fetchOpts where
  "optsRateLimited = \<lparr>limit = 3, sort = ''new'', excludeStickied = True, minCreatedUtc = None, after = None\<rparr>"

text \<open>An upstream item without a body, in a channel that has a canned sentence.\<close>

definition postNoBody :: rpost where
  "postNoBody = rpost0\<lparr>rp_id := ''n1'', rp_title := Some ''Hello world'', rp_subreddit := ''business''\<rparr>"

text \<open>Items for the deduplicator, and a corpus of one record.\<close>

definition item0 :: item where
  "item0 = \<lparr>item_id = [], title = [], content = [], url = [], author = [], createdAt = 0, likes = 0,
     comments = 0, shares = 0, views = 0, thumbnail = None, mediaUrls = [], tags = [],
     platform = ''reddit'', subreddit = [], score = 0, upvoteRatio = 0, stickied = False, pinned = False,
     qualityScore = None, authenticityScore = None\<rparr>"

definition post0 :: post where
  "post0 = \<lparr>p_title = ''t'', p_content = ''c'', sourceUrl = ''https://www.reddit.com/r/x/1'',
     p_platform = ''reddit'', originalId = ''k1'', p_community = ''c1'', owner = ''u1'',
     p_engagementMetrics = \<lparr>em_likes = 5, em_comments = 0, em_shares = 0, em_views = 0\<rparr>,
     p_scrapingMetadata = \<lparr>scrapedAt = 0, originalAuthor = [], originalCreatedAt = 0, sm_qualityScore = 1,
       sm_authenticityScore = 0.5, sm_tags = [], contentType = ''general'', isAuthentic = True,
       validationMethod = ''real_api_scraping''\<rparr>,
     p_thumbnail = None, p_mediaUrls = [], p_status = ''active''\<rparr>"

definition itemFresh1 :: item where
  "itemFresh1 = item0\<lparr>item_id := ''n1'', url := ''https://www.reddit.com/r/x/2''\<rparr>"

definition itemSameId :: item where
  "itemSameId = item0\<lparr>item_id := ''k1'', url := ''https://www.reddit.com/r/x/3''\<rparr>"

definition itemSameUrl :: item where
  "itemSameUrl = item0\<lparr>item_id := ''n2'', url := ''https://www.reddit.com/r/x/1''\<rparr>"

definition itemStickied :: item where
  "itemStickied = item0\<lparr>item_id := ''n3'', url := ''https://www.reddit.com/r/x/4'', stickied := True\<rparr>"

definition itemPinned :: item where
  "itemPinned = item0\<lparr>item_id := ''n4'', url := ''https://www.reddit.com/r/x/5'', pinned := True\<rparr>"

definition itemFresh2 :: item where
  "itemFresh2 = item0\<lparr>item_id := ''n5'', url := ''https://www.reddit.com/r/x/6''\<rparr>"

definition worldDedup :: world where
  "worldDedup = world0\<lparr>posts := [post0]\<rparr>"

text \<open>
  A community with two source configurations, the first with a URL that names no channel, and
  a watermark; an upstream that lists one item after the watermark and one before it.
\<close>

definition postNew :: rpost where
  "postNew = rpost0\<lparr>rp_id := ''new'', rp_title := Some ''Fresh idea'', permalink := Some ''/r/business/comments/new/'',
                     created_utc := 1700000001, rp_subreddit := ''business''\<rparr>"

definition postOld :: rpost where
  "postOld = rpost0\<lparr>rp_id := ''old'', rp_title := Some ''Old idea'', permalink := Some ''/r/business/comments/old/'',
                     created_utc := 1600000000, rp_subreddit := ''business''\<rparr>"

definition upstreamBiz :: "nat \<Rightarrow> request \<Rightarrow> response" where
  "upstreamBiz n rq =
     (case rq of
        GetListing sr so k aft \<Rightarrow> Ok (PostListing (take k [Some postNew, Some postOld]) None)
      | GetComments p m \<Rightarrow> Ok Malformed)"

definition envBiz :: env where
  "envBiz = env0\<lparr>upstream := upstreamBiz\<rparr>"

definition cfgBad :: platformConfig where
  "cfgBad = \<lparr>pc_platform = ''reddit'', pc_sourceUrl = ''https://example.com/feed'', pc_keywords = [],
             pc_isActive = True\<rparr>"

definition cfgGood :: platformConfig where
  "cfgGood = \<lparr>pc_platform = ''reddit'', pc_sourceUrl = ''https://www.reddit.com/r/business/'',
              pc_keywords = [], pc_isActive = True\<rparr>"

definition communityBiz :: community where
  "communityBiz = \<lparr>c_id = ''c1'', c_name = ''Biz'', c_isActive = True, scrapingPlatforms = [cfgBad, cfgGood],
                   lastScrapedAt = Some 1700000000500, postCount = 7, c_scrapingConfig = None\<rparr>"

definition worldBiz :: world where
  "worldBiz = world0\<lparr>communities := [communityBiz], platformUsers := [''u1''], clock := 1700000600000\<rparr>"

text \<open>The same upstream with a scorer that rates the older item below every threshold.\<close>

definition envLowQuality :: env where
  "envLowQuality = envBiz\<lparr>calculateQualityScore := (\<lambda>i. if item_id i = ''old'' then 0.2 else 0.9)\<rparr>"

text \<open>
  A sweep over two communities in which the store rejects the second operation, the lookup of
  the first community.
\<close>

definition communityTwo :: community where
  "communityTwo = \<lparr>c_id = ''c2'', c_name = ''Two'', c_isActive = True, scrapingPlatforms = [cfgGood],
                   lastScrapedAt = None, postCount = 0, c_scrapingConfig = None\<rparr>"

definition worldSweep :: world where
  "worldSweep = worldBiz\<lparr>communities := [communityBiz, communityTwo]\<rparr>"

definition envSweep :: env where
  "envSweep = envBiz\<lparr>fault := (\<lambda>n. if n = 1 then Some ''connection lost'' else None)\<rparr>"

section \<open>Properties of the title enhancement\<close>

text \<open>
  C10. \<open>enhanceTitle\<close> returns a non-empty string on every input: without a title, or with the
  empty title, it returns the constant \<open>Discussion Post\<close>, and a non-empty title that the
  stripping of the prefixes and the trimming empty is returned as it was.
\<close>

theorem enhanceTitle_never_empty:
  "enhanceTitle ot \<noteq> []
   \<and> enhanceTitle None = ''Discussion Post''
   \<and> enhanceTitle (Some []) = ''Discussion Post''
   \<and> (t \<noteq> [] \<and> trim (stripBracketPrefix (stripTagPrefix t)) = [] \<longrightarrow> enhanceTitle (Some t) = t)"
  by (auto simp: enhanceTitle_def Let_def split: option.splits)

theorem enhanceTitle_never_empty_witness:
  "enhanceTitle (Some ''PSA:  '') \<noteq> []
   \<and> ''PSA:  '' \<noteq> [] \<and> trim (stripBracketPrefix (stripTagPrefix ''PSA:  '')) = []
   \<and> enhanceTitle (Some ''PSA:  '') = ''PSA:  ''"
proof -
  have e: "trim (stripBracketPrefix (stripTagPrefix ''PSA:  '')) = []"
    by (simp add: stripTagPrefix_def stripBracketPrefix_def trim_def canon_def cu_def isSpace_def)
  from e enhanceTitle_never_empty [of "Some ''PSA:  ''" "''PSA:  ''"]
  show ?thesis by simp
qed

section \<open>Properties of the keyword filter\<close>














section \<open>Properties of the comment fetch\<close>

lemma commentsOf_bodies:
  "c \<in> set (commentsOf m pl) \<Longrightarrow> cm_content c \<noteq> [] \<and> cm_content c \<noteq> ''[deleted]''"
  by (auto simp: commentsOf_def keepComment_def transformRedditComment_def
      split: payload.splits if_splits option.splits dest!: in_set_takeD)

lemma commentLoop_fuel:
  "commentLoop n (env\<lparr>fuel := k\<rparr>) postId m w = commentLoop n env postId m w"
  by (induction n arbitrary: w) (auto simp: authorizedGet_def split: response.splits)

text \<open>
  C8. A call of \<open>scrapePostComments\<close> issues one request. On a response it returns the
  transformed comments, none of which has an empty body or the body \<open>[deleted]\<close>. On an
  error with status 429 it waits 10 seconds and its result is that of one recursive call with
  the same arguments (which treats a further 429 the same way). On any other error it returns
  the empty list and does not throw.
\<close>

theorem scrapePostComments_contract:
  assumes "fuel env = Suc n"
  shows "case upstream env (requests w) (GetComments postId m) of
           Ok pl \<Rightarrow>
             scrapePostComments env postId m w = (Return (commentsOf m pl), requested (GetComments postId m) w)
             \<and> (\<forall>c\<in>set (commentsOf m pl). cm_content c \<noteq> [] \<and> cm_content c \<noteq> ''[deleted]'')
         | Failed e \<Rightarrow>
             if status e = Some 429
             then scrapePostComments env postId m w =
                    scrapePostComments (env\<lparr>fuel := n\<rparr>) postId m
                      (delay 10000 (requested (GetComments postId m) w))
             else scrapePostComments env postId m w = (Return [], requested (GetComments postId m) w)"
  using assms commentsOf_bodies [of _ m]
  by (auto simp: scrapePostComments_def authorizedGet_def requested_def commentLoop_fuel
      split: response.splits)

theorem scrapePostComments_contract_witness:
  "fuel envComments = Suc (Suc 0)
   \<and> scrapePostComments envComments ''abc'' 10 world0 =
       (Return [\<lparr>cm_id = ''c1'', cm_content = ''Nice post'', cm_author = [], cm_createdAt = 0, cm_likes = 0,
                 parentId = [], cm_platform = ''reddit''\<rparr>,
                \<lparr>cm_id = ''c4'', cm_content = ''Agreed'', cm_author = [], cm_createdAt = 0, cm_likes = 0,
                 parentId = [], cm_platform = ''reddit''\<rparr>],
        world0\<lparr>clock := 10000, requests := 2,
               trace := [Requested (GetComments ''abc'' 10), Delayed 10000, Requested (GetComments ''abc'' 10)]\<rparr>)"
proof -
  have f: "fuel envComments = Suc (Suc 0)"
    by (simp add: envComments_def env0_def)
  have u: "upstream envComments (requests world0) (GetComments ''abc'' 10) =
             Failed (Err ''Request failed with status code 429'' (Some 429))"
    by (simp add: envComments_def env0_def world0_def)
  have r: "scrapePostComments (envComments\<lparr>fuel := Suc 0\<rparr>) ''abc'' 10
             (delay 10000 (requested (GetComments ''abc'' 10) world0)) =
       (Return [\<lparr>cm_id = ''c1'', cm_content = ''Nice post'', cm_author = [], cm_createdAt = 0, cm_likes = 0,
                 parentId = [], cm_platform = ''reddit''\<rparr>,
                \<lparr>cm_id = ''c4'', cm_content = ''Agreed'', cm_author = [], cm_createdAt = 0, cm_likes = 0,
                 parentId = [], cm_platform = ''reddit''\<rparr>],
        world0\<lparr>clock := 10000, requests := 2,
               trace := [Requested (GetComments ''abc'' 10), Delayed 10000, Requested (GetComments ''abc'' 10)]\<rparr>)"
    by (simp add: scrapePostComments_def envComments_def env0_def world0_def requested_def delay_def
          authorizedGet_def commentsOf_def keepComment_def rcomment0_def transformRedditComment_def)
  from scrapePostComments_contract [OF f, where w = world0 and postId = "''abc''" and m = 10] u r f
  show ?thesis by simp
qed

section \<open>The listing fetch under rate limiting\<close>

lemma envRateLimited_fields:
  "upstream envRateLimited = upstreamRateLimited" "random envRateLimited n = 0"
  "fuel envRateLimited = Suc (Suc (Suc (Suc 0)))"
  by (simp_all add: envRateLimited_def env0_def)

lemma rateLimited_stickied:
  "rp_stickied postSticky" "\<not> rp_stickied postA" "\<not> rp_stickied postB" "\<not> rp_stickied postD"
  "\<not> rp_stickied postE" "\<not> rp_stickied postF"
  by (simp_all add: postSticky_def postA_def postB_def postD_def postE_def postF_def rpost0_def)

lemma rateLimited_short:
  "reachesRandom (passedBody postA) \<and> reachesRandom (passedBody postB) \<and> reachesRandom (passedBody postD)
   \<and> reachesRandom (passedBody postE) \<and> reachesRandom (passedBody postF)"
  by code_simp

text \<open>
  C4, at a concrete run. With a limit of 3, the first page yields two items (the stickied one
  is dropped) and the cursor \<open>t3_b\<close>; the request for the one remaining item is answered
  with 429. The client waits 5 seconds and calls \<open>fetchRedditPosts\<close> again with that cursor,
  which asks for 3 items, not 1, and returns the three items of the later page: the two items
  accumulated before the 429 are not part of the result.
\<close>

theorem fetchRedditPosts_retry_loses_accumulated:
  "fetchRedditPosts envRateLimited ''business'' optsRateLimited world0 =
     (Return ([transformRedditPost (isImageUrl envRateLimited) 0 postD,
               transformRedditPost (isImageUrl envRateLimited) 0 postE,
               transformRedditPost (isImageUrl envRateLimited) 0 postF], None),
      world0\<lparr>clock := 7000, requests := 3, draws := 5,
             trace := [Requested (GetListing ''business'' ''new'' 3 None), Delayed 2000,
                       Requested (GetListing ''business'' ''new'' 1 (Some ''t3_b'')), Delayed 5000,
                       Requested (GetListing ''business'' ''new'' 3 (Some ''t3_b''))]\<rparr>)"
  by (simp add: fetchRedditPosts_def optsRateLimited_def world0_def upstreamRateLimited_def
      envRateLimited_fields rateLimited_stickied rateLimited_short
      authorizedGet_def delay_def normalizedSort_def truthy_def childrenOf_def afterOf_def
      olderThanMin_def drawFor_def drawBelow_def rateLimitDelay_def Let_def)

section \<open>The body of an item without a body\<close>

text \<open>
  C5, at a concrete item. The body is empty, the title is \<open>Hello world\<close> and the channel is
  \<open>business\<close>. \<open>transformRedditPost\<close> passes the title as the body to \<open>enhanceContent\<close>,
  which therefore does not take the branch of \<open>generateContentFromContext\<close>: the content is
  the title followed by one of the four filler sentences, whatever the random index, and never
  the title followed by the sentence of the channel.
\<close>

theorem transform_empty_body_keeps_title_as_body:
  "selftext postNoBody = []
   \<and> content (transformRedditPost f r postNoBody) =
       ''Hello world'' @ [CHR 0x0A, CHR 0x0A] @ expansions ! (r mod 4)
   \<and> generateContentFromContext postNoBody =
       ''Hello world'' @ [CHR 0x0A, CHR 0x0A] @ ''Seeking advice and perspectives from the business community.''
   \<and> content (transformRedditPost f r postNoBody) \<noteq> generateContentFromContext postNoBody"
proof -
  have t: "trim ''Hello world'' = ''Hello world''"
    by code_simp
  have s: "stripNotes ''Hello world'' = ''Hello world''"
    by code_simp
  have c: "content (transformRedditPost f r postNoBody) =
             ''Hello world'' @ [CHR 0x0A, CHR 0x0A] @ expansions ! (r mod 4)"
    by (simp add: transformRedditPost_def passedBody_def postNoBody_def rpost0_def enhanceContent_def t s
        expandShortContent_def)
  have g: "generateContentFromContext postNoBody =
       ''Hello world'' @ [CHR 0x0A, CHR 0x0A] @ ''Seeking advice and perspectives from the business community.''"
    by code_simp
  have "r mod 4 < 4" by simp
  then consider "r mod 4 = 0" | "r mod 4 = 1" | "r mod 4 = 2" | "r mod 4 = 3" by linarith
  then have n: "expansions ! (r mod 4) \<noteq> ''Seeking advice and perspectives from the business community.''"
    by cases (simp_all add: expansions_def)
  show ?thesis
    using c g n by (simp add: postNoBody_def rpost0_def)
qed

section \<open>Properties of the deduplicator\<close>

lemma promiseAll_exists:
  "\<forall>i<length items. fault env (dbOps w + i) = None \<Longrightarrow>
   promiseAll (map (\<lambda>c. bindP (postExists env pf c)
                          (\<lambda>exists. let isSticky = (stickied c \<or> pinned c)
                                     in ret (c, \<not> exists \<and> \<not> isSticky))) items) w =
     (Return (map (\<lambda>c. (c, isNew w pf c)) items), w\<lparr>dbOps := dbOps w + length items\<rparr>)"
proof (induction items arbitrary: w)
  case Nil
  then show ?case by simp
next
  case (Cons c cs)
  let ?w1 = "w\<lparr>dbOps := dbOps w + 1\<rparr>"
  from Cons.prems have f0: "fault env (dbOps w) = None" by fastforce
  from Cons.prems have "\<forall>i<length cs. fault env (dbOps ?w1 + i) = None" by fastforce
  from Cons.IH [OF this] f0 show ?case
    by (simp add: bindP_def postExists_def dbOp_def ret_def isNew_def)
qed

text \<open>
  C2. When the store answers every existence check, \<open>filterNewContent\<close> returns exactly the
  items for which no persisted record has the given platform and the item's id as
  \<open>originalId\<close>, no persisted record has the item's URL as \<open>sourceUrl\<close>, and which are
  neither stickied nor pinned; they come in the order of the input.
\<close>

theorem filterNewContent_exact:
  assumes "\<forall>i<length items. fault env (dbOps w + i) = None"
  shows "filterNewContent env items pf w =
           (Return (filter (\<lambda>c. \<not> (\<exists>p\<in>set (posts w). p_platform p = pf \<and> originalId p = item_id c)
                               \<and> \<not> (\<exists>p\<in>set (posts w). sourceUrl p = url c)
                               \<and> \<not> stickied c \<and> \<not> pinned c) items),
            w\<lparr>dbOps := dbOps w + length items\<rparr>)"
proof -
  have k: "(\<lambda>c. \<not> (\<exists>p\<in>set (posts w). p_platform p = pf \<and> originalId p = item_id c)
                               \<and> \<not> (\<exists>p\<in>set (posts w). sourceUrl p = url c)
                               \<and> \<not> stickied c \<and> \<not> pinned c) = isNew w pf"
    by (auto simp: isNew_def postMatches_def list_ex_iff fun_eq_iff)
  have m: "map fst (filter snd (map (\<lambda>c. (c, isNew w pf c)) items)) = filter (isNew w pf) items"
    by (induction items) auto
  show ?thesis
    unfolding k using promiseAll_exists [OF assms, of pf] m
    by (simp add: filterNewContent_def bindP_def ret_def)
qed

lemma dedup_items:
  "item_id itemFresh1 = ''n1''" "url itemFresh1 = ''https://www.reddit.com/r/x/2''"
  "\<not> stickied itemFresh1" "\<not> pinned itemFresh1"
  "item_id itemSameId = ''k1''" "url itemSameId = ''https://www.reddit.com/r/x/3''"
  "\<not> stickied itemSameId" "\<not> pinned itemSameId"
  "item_id itemSameUrl = ''n2''" "url itemSameUrl = ''https://www.reddit.com/r/x/1''"
  "\<not> stickied itemSameUrl" "\<not> pinned itemSameUrl"
  "stickied itemStickied" "pinned itemPinned"
  "item_id itemFresh2 = ''n5''" "url itemFresh2 = ''https://www.reddit.com/r/x/6''"
  "\<not> stickied itemFresh2" "\<not> pinned itemFresh2"
  by (simp_all add: itemFresh1_def itemSameId_def itemSameUrl_def itemStickied_def itemPinned_def
      itemFresh2_def item0_def)

lemma dedup_post:
  "p_platform post0 = ''reddit''" "originalId post0 = ''k1''" "sourceUrl post0 = ''https://www.reddit.com/r/x/1''"
  by (simp_all add: post0_def)

theorem filterNewContent_exact_witness:
  "fault env0 = (\<lambda>n. None)
   \<and> filterNewContent env0 [itemFresh1, itemSameId, itemSameUrl, itemStickied, itemPinned, itemFresh2]
        ''reddit'' worldDedup =
       (Return [itemFresh1, itemFresh2], worldDedup\<lparr>dbOps := 6\<rparr>)"
proof -
  have f: "\<forall>i<length [itemFresh1, itemSameId, itemSameUrl, itemStickied, itemPinned, itemFresh2].
       fault env0 (dbOps worldDedup + i) = None"
    by (simp add: env0_def)
  have p: "posts worldDedup = [post0]" "dbOps worldDedup = 0"
    by (simp_all add: worldDedup_def world0_def)
  have n: "fault env0 = (\<lambda>n. None)"
    by (simp add: env0_def)
  from filterNewContent_exact [OF f, of "''reddit''"] n
  show ?thesis
    by (simp add: p dedup_items dedup_post)
qed

section \<open>Invariants of programs\<close>

lemma est_ret: "Q x \<Longrightarrow> establishes I (ret x) Q"
  by (simp add: establishes_def ret_def)

lemma est_throw: "establishes I (throw e) Q"
  by (simp add: establishes_def throw_def)

lemma est_bind:
  assumes "establishes I m Q" and "\<And>x. Q x \<Longrightarrow> establishes I (f x) R"
  shows "establishes I (bindP m f) R"
  unfolding establishes_def
proof (intro allI impI)
  fix w out w'
  assume i: "I w" and r: "bindP m f w = (out, w')"
  obtain o1 w1 where m: "m w = (o1, w1)" by force
  from assms(1) i m have i1: "I w1" and q: "\<forall>x. o1 = Return x \<longrightarrow> Q x"
    by (auto simp: establishes_def)
  show "I w' \<and> (\<forall>x. out = Return x \<longrightarrow> R x)"
  proof (cases o1)
    case (Return x)
    with q have "Q x" by simp
    from assms(2) [OF this] i1 r m Return show ?thesis
      by (auto simp: establishes_def bindP_def)
  next
    case (Throw e)
    with r m i1 show ?thesis by (auto simp: bindP_def)
  next
    case Diverge
    with r m i1 show ?thesis by (auto simp: bindP_def)
  qed
qed

lemma est_tryCatch:
  assumes "establishes I m Q" and "\<And>e. establishes I (h e) Q"
  shows "establishes I (tryCatch m h) Q"
  unfolding establishes_def
proof (intro allI impI)
  fix w out w'
  assume i: "I w" and r: "tryCatch m h w = (out, w')"
  obtain o1 w1 where m: "m w = (o1, w1)" by force
  from assms(1) i m have i1: "I w1" and q: "\<forall>x. o1 = Return x \<longrightarrow> Q x"
    by (auto simp: establishes_def)
  show "I w' \<and> (\<forall>x. out = Return x \<longrightarrow> Q x)"
  proof (cases o1)
    case (Return x)
    with r m i1 q show ?thesis by (auto simp: tryCatch_def)
  next
    case (Throw e)
    with assms(2) [of e] i1 r m show ?thesis
      by (auto simp: establishes_def tryCatch_def)
  next
    case Diverge
    with r m i1 show ?thesis by (auto simp: tryCatch_def)
  qed
qed

lemma est_weaken:
  "establishes I m Q \<Longrightarrow> (\<And>x. Q x \<Longrightarrow> Q' x) \<Longrightarrow> establishes I m Q'"
  by (fastforce simp: establishes_def)

lemma est_forEach:
  assumes "\<And>x s. x \<in> set xs \<Longrightarrow> Q s \<Longrightarrow> establishes I (step x s) Q" and "Q s"
  shows "establishes I (forEach step xs s) Q"
  using assms
proof (induction xs arbitrary: s)
  case Nil
  then show ?case by (simp add: est_ret)
next
  case (Cons x xs)
  show ?case
    unfolding forEach.simps
  proof (rule est_bind)
    show "establishes I (step x s) Q" using Cons.prems by simp
  next
    fix s' assume "Q s'"
    then show "establishes I (forEach step xs s') Q"
      using Cons.IH Cons.prems(1) by simp
  qed
qed

lemma frame_fields:
  assumes "frame I"
  shows "I (w\<lparr>dbOps := a\<rparr>) = I w" "I (w\<lparr>draws := b\<rparr>) = I w" "I (w\<lparr>requests := c\<rparr>) = I w"
    "I (w\<lparr>clock := d\<rparr>) = I w" "I (w\<lparr>trace := e\<rparr>) = I w"
proof -
  have f: "\<And>a b c d e. I (w\<lparr>dbOps := a, draws := b, requests := c, clock := d, trace := e\<rparr>) = I w"
    using assms by (simp add: frame_def)
  show "I (w\<lparr>dbOps := a\<rparr>) = I w"
    using f [where a = a and b = "draws w" and c = "requests w" and d = "clock w" and e = "trace w"] by simp
  show "I (w\<lparr>draws := b\<rparr>) = I w"
    using f [where a = "dbOps w" and b = b and c = "requests w" and d = "clock w" and e = "trace w"] by simp
  show "I (w\<lparr>requests := c\<rparr>) = I w"
    using f [where a = "dbOps w" and b = "draws w" and c = c and d = "clock w" and e = "trace w"] by simp
  show "I (w\<lparr>clock := d\<rparr>) = I w"
    using f [where a = "dbOps w" and b = "draws w" and c = "requests w" and d = d and e = "trace w"] by simp
  show "I (w\<lparr>trace := e\<rparr>) = I w"
    using f [where a = "dbOps w" and b = "draws w" and c = "requests w" and d = "clock w" and e = e] by simp
qed

lemma frame_delay: "frame I \<Longrightarrow> I (delay ms w) = I w"
  by (simp add: delay_def frame_fields)

lemma frame_authorizedGet: "frame I \<Longrightarrow> authorizedGet env rq w = (r, w1) \<Longrightarrow> I w1 = I w"
  by (auto simp: authorizedGet_def frame_fields)

lemma est_dbOp_read: "frame I \<Longrightarrow> establishes I (dbOp env (\<lambda>w. (g w, w))) (\<lambda>x. True)"
  by (auto simp: establishes_def dbOp_def Let_def frame_fields split: option.splits)

lemma est_draw: "frame I \<Longrightarrow> establishes I (draw env n) (\<lambda>x. True)"
  by (auto simp: establishes_def draw_def drawBelow_def frame_fields)

lemma est_now: "establishes I now (\<lambda>x. True)"
  by (auto simp: establishes_def now_def)

lemma est_userAt: "establishes I (userAt users i) (\<lambda>x. True)"
  by (auto simp: establishes_def userAt_def ret_def throw_def)

lemma est_createPost:
  assumes fr: "frame I" and g: "\<And>w. I w \<Longrightarrow> I (w\<lparr>posts := posts w @ [doc]\<rparr>)"
  shows "establishes I (createPost env doc) (\<lambda>x. True)"
proof -
  have a: "establishes I (\<lambda>w. (Return doc, w\<lparr>posts := posts w @ [doc]\<rparr>)) (\<lambda>x. True)"
    using g by (simp add: establishes_def)
  show ?thesis
    unfolding createPost_def
    by (rule est_bind [OF est_dbOp_read [OF fr]]) (simp add: est_throw a)
qed

text \<open>Where no draw is made, the item does not depend on the index.\<close>

lemma transformRedditPost_index:
  "\<not> reachesRandom (passedBody d) \<Longrightarrow> transformRedditPost f r d = transformRedditPost f r' d"
  by (auto simp: transformRedditPost_def enhanceContent_def reachesRandom_def Let_def split: option.splits)

lemma drawFor_frame: "frame I \<Longrightarrow> I (snd (drawFor env d w)) = I w"
  by (simp add: drawFor_def drawBelow_def frame_fields)

lemma pushChildren_Some:
  "pushChildren env opts (Some d # rest) ps reached w =
     (if excludeStickied opts \<and> rp_stickied d then pushChildren env opts rest ps reached w
      else if olderThanMin (minCreatedUtc opts) d then pushChildren env opts rest ps True w
      else if length (ps @ [transformRedditPost (isImageUrl env) (fst (drawFor env d w)) d]) \<ge> limit opts
           then (ps @ [transformRedditPost (isImageUrl env) (fst (drawFor env d w)) d], reached,
                 snd (drawFor env d w))
           else pushChildren env opts rest
                  (ps @ [transformRedditPost (isImageUrl env) (fst (drawFor env d w)) d]) reached
                  (snd (drawFor env d w)))"
  by (simp add: Let_def split: prod.splits)

lemma pushChildren_inv:
  assumes "frame I"
  shows "pushChildren env opts cs ps reached w = (ps', reached', w') \<Longrightarrow> I w' = I w"
proof (induction cs arbitrary: ps reached w)
  case Nil
  then show ?case by simp
next
  case (Cons c cs)
  show ?case
  proof (cases c)
    case None
    with Cons show ?thesis by simp
  next
    case (Some d)
    let ?w1 = "snd (drawFor env d w)"
    let ?ps = "ps @ [transformRedditPost (isImageUrl env) (fst (drawFor env d w)) d]"
    note st = Cons.prems [unfolded Some pushChildren_Some]
    have ih: "pushChildren env opts cs ?ps reached ?w1 = (ps', reached', w') \<Longrightarrow> I w' = I ?w1"
      by (rule Cons.IH)
    from st ih Cons.IH [of ps _ w] show ?thesis
      by (auto split: if_splits simp: drawFor_frame [OF assms])
  qed
qed

lemma pushChildren_items:
  assumes "\<And>f r d. \<not> olderThanMin (minCreatedUtc opts) d \<Longrightarrow> Q (transformRedditPost f r d)"
  shows "\<forall>c\<in>set ps. Q c \<Longrightarrow> pushChildren env opts cs ps reached w = (ps', reached', w')
         \<Longrightarrow> \<forall>c\<in>set ps'. Q c"
proof (induction cs arbitrary: ps reached w)
  case Nil
  then show ?case by simp
next
  case (Cons c cs)
  show ?case
  proof (cases c)
    case None
    with Cons show ?thesis by simp
  next
    case (Some d)
    let ?w1 = "snd (drawFor env d w)"
    let ?it = "transformRedditPost (isImageUrl env) (fst (drawFor env d w)) d"
    note st = Cons.prems(2) [unfolded Some pushChildren_Some]
    consider "excludeStickied opts \<and> rp_stickied d"
      | "\<not> (excludeStickied opts \<and> rp_stickied d)" "olderThanMin (minCreatedUtc opts) d"
      | "\<not> (excludeStickied opts \<and> rp_stickied d)" "\<not> olderThanMin (minCreatedUtc opts) d"
        "length (ps @ [?it]) \<ge> limit opts"
      | "\<not> (excludeStickied opts \<and> rp_stickied d)" "\<not> olderThanMin (minCreatedUtc opts) d"
        "\<not> length (ps @ [?it]) \<ge> limit opts"
      by blast
    then show ?thesis
    proof cases
      case 1
      with st have "pushChildren env opts cs ps reached w = (ps', reached', w')" by simp
      from Cons.IH [OF Cons.prems(1) this] show ?thesis .
    next
      case 2
      with st have "pushChildren env opts cs ps True w = (ps', reached', w')" by simp
      from Cons.IH [OF Cons.prems(1) this] show ?thesis .
    next
      case 3
      have "Q ?it" using assms 3(2) by simp
      moreover from st 3 have "ps' = ps @ [?it]" by simp
      ultimately show ?thesis using Cons.prems(1) by simp
    next
      case 4
      have "Q ?it" using assms 4(2) by simp
      then have a: "\<forall>c\<in>set (ps @ [?it]). Q c" using Cons.prems(1) by simp
      from st 4 have "pushChildren env opts cs (ps @ [?it]) reached ?w1 = (ps', reached', w')" by simp
      from Cons.IH [OF a this] show ?thesis .
    qed
  qed
qed

lemma estD:
  "establishes I m Q \<Longrightarrow> I w \<Longrightarrow> m w = (out, w') \<Longrightarrow> I w' \<and> (\<forall>x. out = Return x \<longrightarrow> Q x)"
  by (simp add: establishes_def)

lemma fetchLoop_step_failed:
  "length ps < limit opts \<Longrightarrow> \<not> reached \<Longrightarrow>
   authorizedGet env (GetListing sr (normalizedSort (sort opts)) (min (limit opts - length ps) 25)
                        (if truthy a then a else None)) w = (Failed e, w1) \<Longrightarrow>
   fetchLoop (Suc n) env sr opts ps a reached w =
     (if status e = Some 429 then fetchLoop n env sr opts [] a False (delay 5000 w1) else (Throw e, w1))"
  by simp

lemma fetchLoop_step_ok:
  "length ps < limit opts \<Longrightarrow> \<not> reached \<Longrightarrow>
   authorizedGet env (GetListing sr (normalizedSort (sort opts)) (min (limit opts - length ps) 25)
                        (if truthy a then a else None)) w = (Ok pl, w1) \<Longrightarrow>
   pushChildren env opts (childrenOf pl) ps reached w1 = (ps2, r2, w2) \<Longrightarrow>
   fetchLoop (Suc n) env sr opts ps a reached w =
     (if childrenOf pl = [] then (Return (ps, a), w1)
      else if \<not> truthy (afterOf pl) then (Return (ps2, afterOf pl), w2)
      else fetchLoop n env sr opts ps2 (afterOf pl) r2 (delay rateLimitDelay w2))"
  by simp

lemma fetchLoop_step_done:
  "\<not> (length ps < limit opts \<and> \<not> reached) \<Longrightarrow>
   fetchLoop (Suc n) env sr opts ps a reached w = (Return (ps, a), w)"
  by auto

lemma fetchLoop_establishes:
  assumes fr: "frame I" and q: "\<And>f r d. \<not> olderThanMin (minCreatedUtc opts) d \<Longrightarrow> Q (transformRedditPost f r d)"
  shows "\<forall>c\<in>set ps. Q c \<Longrightarrow>
         establishes I (fetchLoop n env sr opts ps a reached) (\<lambda>r. \<forall>c\<in>set (fst r). Q c)"
proof (induction n arbitrary: ps a reached)
  case 0
  then show ?case by (simp add: establishes_def)
next
  case (Suc n)
  show ?case
    unfolding establishes_def
  proof (intro allI impI)
    fix w out w'
    assume i: "I w" and r: "fetchLoop (Suc n) env sr opts ps a reached w = (out, w')"
    show "I w' \<and> (\<forall>x. out = Return x \<longrightarrow> (\<forall>c\<in>set (fst x). Q c))"
    proof (cases "length ps < limit opts \<and> \<not> reached")
      case False
      from r [unfolded fetchLoop_step_done [OF False]] i Suc.prems show ?thesis by auto
    next
      case True
      then have t1: "length ps < limit opts" and t2: "\<not> reached" by simp_all
      obtain rs w1 where g: "authorizedGet env
                (GetListing sr (normalizedSort (sort opts)) (min (limit opts - length ps) 25)
                   (if truthy a then a else None)) w = (rs, w1)" by force
      have i1: "I w1" using frame_authorizedGet [OF fr g] i by simp
      show ?thesis
      proof (cases rs)
        case (Failed e)
        note st = r [unfolded fetchLoop_step_failed [OF t1 t2 g [unfolded Failed]]]
        show ?thesis
        proof (cases "status e = Some 429")
          case True
          have ih: "establishes I (fetchLoop n env sr opts [] a False) (\<lambda>r. \<forall>c\<in>set (fst r). Q c)"
            by (rule Suc.IH) simp
          from st True have "fetchLoop n env sr opts [] a False (delay 5000 w1) = (out, w')" by simp
          from estD [OF ih _ this] i1 show ?thesis by (simp add: frame_delay [OF fr])
        next
          case False
          with st i1 show ?thesis by auto
        qed
      next
        case (Ok pl)
        obtain ps2 r2 w2 where pc: "pushChildren env opts (childrenOf pl) ps reached w1 = (ps2, r2, w2)"
          by (metis prod_cases3)
        note st = r [unfolded fetchLoop_step_ok [OF t1 t2 g [unfolded Ok] pc]]
        have i2: "I w2" using pushChildren_inv [OF fr pc] i1 by simp
        have q2: "\<forall>c\<in>set ps2. Q c" using pushChildren_items [OF q Suc.prems pc] by simp
        have ih: "establishes I (fetchLoop n env sr opts ps2 (afterOf pl) r2) (\<lambda>r. \<forall>c\<in>set (fst r). Q c)"
          by (rule Suc.IH) (rule q2)
        consider "childrenOf pl = []" | "childrenOf pl \<noteq> []" "\<not> truthy (afterOf pl)"
          | "childrenOf pl \<noteq> []" "truthy (afterOf pl)" by blast
        then show ?thesis
        proof cases
          case 1
          with st i1 Suc.prems show ?thesis by auto
        next
          case 2
          with st i2 q2 show ?thesis by auto
        next
          case 3
          with st have "fetchLoop n env sr opts ps2 (afterOf pl) r2 (delay rateLimitDelay w2) = (out, w')"
            by simp
          from estD [OF ih _ this] i2 show ?thesis by (simp add: frame_delay [OF fr])
        qed
      qed
    qed
  qed
qed

lemma scrapeContent_establishes:
  assumes fr: "frame I" and q: "\<And>f r d. \<not> olderThanMin (sc_minCreatedUtc config) d \<Longrightarrow> Q (transformRedditPost f r d)"
  shows "establishes I (scrapeContent env config) (\<lambda>ps. \<forall>c\<in>set ps. Q c)"
  unfolding scrapeContent_def
proof (rule est_tryCatch)
  show "establishes I
     (case extractSubreddit (sc_sourceUrl config) of
        None \<Rightarrow> throw (Err ''Invalid Reddit URL - could not extract subreddit'' None)
      | Some sr \<Rightarrow>
          bindP (fetchRedditPosts env sr
                   \<lparr>limit = sc_maxPosts config, sort = sc_sort config,
                    excludeStickied = sc_excludeStickied config,
                    minCreatedUtc = sc_minCreatedUtc config, after = None\<rparr>)
            (\<lambda>(ps, nextAfter).
               let filteredPosts =
                     (if length (sc_keywords config) > 0
                      then filter (\<lambda>p. matchesKeywords p (sc_keywords config)) ps
                      else ps)
               in ret (take (sc_maxPosts config) filteredPosts)))
     (\<lambda>ps. \<forall>c\<in>set ps. Q c)"
  proof (cases "extractSubreddit (sc_sourceUrl config)")
    case None
    then show ?thesis by (simp add: est_throw)
  next
    case (Some sr)
    have f: "establishes I (fetchRedditPosts env sr
                   \<lparr>limit = sc_maxPosts config, sort = sc_sort config,
                    excludeStickied = sc_excludeStickied config,
                    minCreatedUtc = sc_minCreatedUtc config, after = None\<rparr>) (\<lambda>r. \<forall>c\<in>set (fst r). Q c)"
      unfolding fetchRedditPosts_def
      by (rule fetchLoop_establishes [OF fr]) (use q in auto)
    show ?thesis
      unfolding Some option.case
      by (rule est_bind [OF f]) (auto intro!: est_ret dest!: in_set_takeD split: if_splits)
  qed
next
  fix e
  show "establishes I (throw (Err (''Reddit scraping failed: '' @ message e) None)) (\<lambda>ps. \<forall>c\<in>set ps. Q c)"
    by (rule est_throw)
qed

lemma promiseAll_inv:
  "frame I \<Longrightarrow> I w \<Longrightarrow>
   promiseAll (map (\<lambda>c. bindP (postExists env pf c) (\<lambda>exists. ret (c, k exists c))) items) w = (out, w')
   \<Longrightarrow> I w' \<and> (\<forall>rs. out = Return rs \<longrightarrow> map fst rs = items)"
proof (induction items arbitrary: w out w')
  case Nil
  then show ?case by auto
next
  case (Cons c cs)
  obtain o1 w1 where a: "bindP (postExists env pf c) (\<lambda>exists. ret (c, k exists c)) w = (o1, w1)"
    by force
  obtain o2 w2 where b: "promiseAll (map (\<lambda>c. bindP (postExists env pf c) (\<lambda>exists. ret (c, k exists c))) cs) w1 = (o2, w2)"
    by force
  have e: "establishes I (bindP (postExists env pf c) (\<lambda>exists. ret (c, k exists c))) (\<lambda>r. fst r = c)"
    unfolding postExists_def
    by (rule est_bind [OF est_dbOp_read [OF Cons.prems(1)]]) (simp add: est_ret)
  from estD [OF e Cons.prems(2) a] have i1: "I w1" and f1: "\<forall>x. o1 = Return x \<longrightarrow> fst x = c"
    by simp_all
  from Cons.IH [OF Cons.prems(1) i1 b] have i2: "I w2" and f2: "\<forall>rs. o2 = Return rs \<longrightarrow> map fst rs = cs"
    by simp_all
  from Cons.prems(3) a b have w: "w' = w2"
    and o: "out = (case o1 of
                   Return x \<Rightarrow> (case o2 of Return xs \<Rightarrow> Return (x # xs) | Throw e \<Rightarrow> Throw e | Diverge \<Rightarrow> Diverge)
                 | Throw e \<Rightarrow> Throw e
                 | Diverge \<Rightarrow> Diverge)"
    by simp_all
  from o f1 f2 have "\<forall>rs. out = Return rs \<longrightarrow> map fst rs = c # cs"
    by (auto split: outcome.splits)
  with i2 w show ?case by simp
qed

lemma filterNewContent_establishes:
  assumes fr: "frame I"
  shows "establishes I (filterNewContent env items pf) (\<lambda>r. set r \<subseteq> set items)"
proof (cases "length items = 0")
  case True
  then show ?thesis by (simp add: filterNewContent_def est_ret)
next
  case False
  have p: "establishes I
     (promiseAll (map (\<lambda>c. bindP (postExists env pf c)
                                          (\<lambda>exists. let isSticky = (stickied c \<or> pinned c)
                                                     in ret (c, \<not> exists \<and> \<not> isSticky))) items))
     (\<lambda>rs. map fst rs = items)"
    unfolding establishes_def Let_def
    using promiseAll_inv [OF fr, of _ env pf "\<lambda>exists c. \<not> exists \<and> \<not> (stickied c \<or> pinned c)" items]
    by blast
  have s: "\<And>rs. map fst rs = items \<Longrightarrow> set (map fst (filter snd rs)) \<subseteq> set items"
    by force
  show ?thesis
    using False unfolding filterNewContent_def
    by (simp only: if_False) (rule est_bind [OF p], rule est_ret, rule s)
qed

lemma est_assignLikes: "frame I \<Longrightarrow> establishes I (assignInitialLikesToPost env p) (\<lambda>x. True)"
  unfolding assignInitialLikesToPost_def by (rule est_dbOp_read)

lemma est_generateForPost: "frame I \<Longrightarrow> establishes I (generateCommentsForPost env p n) (\<lambda>x. True)"
  unfolding generateCommentsForPost_def by (rule est_dbOp_read)

lemma est_True: "establishes I m Q \<Longrightarrow> establishes I m (\<lambda>x. True)"
  by (simp add: establishes_def)

lemma createFromScraped_establishes:
  assumes fr: "frame I"
    and "\<And>u l t w. \<not> calculateQualityScore env c < thresholdOr 0.5 community \<Longrightarrow> I w \<Longrightarrow>
              I (w\<lparr>posts := posts w @ [scrapedPostDoc env community pf c (calculateQualityScore env c) u l t]\<rparr>)"
  shows "establishes I (createFromScraped env community pf users c acc) (\<lambda>x. True)"
  unfolding createFromScraped_def Let_def postExists_def
  by (auto intro!: est_tryCatch est_bind [OF est_dbOp_read [OF fr]] est_bind [OF est_draw [OF fr]]
      est_bind [OF est_userAt] est_bind [OF est_now] est_bind [OF est_createPost [OF fr]]
      est_bind [OF est_assignLikes [OF fr]] est_ret assms(2))

lemma createPostsFromScrapedContent_establishes:
  assumes fr: "frame I"
    and "\<And>c u l t w. c \<in> set items \<Longrightarrow> \<not> calculateQualityScore env c < thresholdOr 0.5 community \<Longrightarrow> I w \<Longrightarrow>
              I (w\<lparr>posts := posts w @ [scrapedPostDoc env community pf c (calculateQualityScore env c) u l t]\<rparr>)"
  shows "establishes I (createPostsFromScrapedContent env items community pf users) (\<lambda>x. True)"
  unfolding createPostsFromScrapedContent_def
  by (rule est_forEach) (auto intro: createFromScraped_establishes [OF fr] assms(2))

lemma createFromAuthentic_establishes:
  assumes fr: "frame I"
    and "\<And>u l t w. I w \<Longrightarrow> I (w\<lparr>posts := posts w @ [authenticPostDoc env community pf c u l t]\<rparr>)"
  shows "establishes I (createFromAuthentic env community pf users c acc) (\<lambda>x. True)"
  unfolding createFromAuthentic_def Let_def postExists_def
  by (auto intro!: est_tryCatch est_bind [OF est_dbOp_read [OF fr]] est_bind [OF est_draw [OF fr]]
      est_bind [OF est_userAt] est_bind [OF est_now] est_bind [OF est_createPost [OF fr]]
      est_bind [OF est_assignLikes [OF fr]] est_ret assms(2))

lemma createPostsFromAuthenticContent_establishes:
  assumes fr: "frame I"
    and "\<And>c u l t w. c \<in> set items \<Longrightarrow> I w \<Longrightarrow>
            I (w\<lparr>posts := posts w @ [authenticPostDoc env community pf c u l t]\<rparr>)"
  shows "establishes I (createPostsFromAuthenticContent env items community pf users) (\<lambda>x. True)"
  unfolding createPostsFromAuthenticContent_def
  by (rule est_forEach) (auto intro: createFromAuthentic_establishes [OF fr] assms(2))

lemma est_delay: "frame I \<Longrightarrow> establishes I (\<lambda>w. (Return x, delay ms w)) (\<lambda>x. True)"
  by (simp add: establishes_def frame_delay)

lemma generateCommentsFor_establishes:
  assumes fr: "frame I"
  shows "establishes I (generateCommentsFor env pf c u) (\<lambda>x. True)"
  unfolding generateCommentsFor_def Let_def findPostByOriginal_def
  by (auto intro!: est_tryCatch est_bind [OF est_dbOp_read [OF fr]] est_bind [OF est_draw [OF fr]]
      est_bind [OF est_generateForPost [OF fr]] est_ret est_delay [OF fr] split: option.splits)

lemma generateCommentsForCreatedPosts_establishes:
  assumes fr: "frame I"
  shows "establishes I (generateCommentsForCreatedPosts env items pf) (\<lambda>x. True)"
  unfolding generateCommentsForCreatedPosts_def
  by (auto intro!: est_tryCatch est_forEach generateCommentsFor_establishes [OF fr] est_ret)

lemma afterCreation_establishes:
  assumes fr: "frame I"
  shows "establishes I (afterCreation env pf res) (\<lambda>x. True)"
  unfolding afterCreation_def
  by (rule est_bind [where Q = "\<lambda>x. True"])
     (auto intro!: generateCommentsForCreatedPosts_establishes [OF fr] est_ret)


section \<open>The pipeline on a community\<close>

lemma communityRun_unfold:
  "communityRun env stage cid =
     bindP (findCommunityById env cid) (\<lambda>found.
       case found of
         None \<Rightarrow> throw (Err ''Community not found'' None)
       | Some community \<Rightarrow> withCommunity env stage cid community)"
  unfolding communityRun_def withCommunity_def by (rule refl)

lemma frame_inv: "frame (inv P w0)"
  by (simp add: frame_def inv_def)

lemma inv_refl: "inv P w w"
  by (simp add: inv_def)

lemma fresh_arith:
  fixes T c :: int
  shows "T div 1000 < c \<Longrightarrow> T < c * 1000"
  by arith

lemma fresh_transformed:
  "T div 1000 \<noteq> 0 \<Longrightarrow> \<not> olderThanMin (map_option toUnixSeconds (Some T)) d \<Longrightarrow>
   T < createdAt (transformRedditPost f r d)"
  by (simp add: olderThanMin_def toUnixSeconds_def transformRedditPost_def fresh_arith)

lemma inv_add_post: "P doc \<Longrightarrow> inv P w0 w \<Longrightarrow> inv P w0 (w\<lparr>posts := posts w @ [doc]\<rparr>)"
  by (auto simp: inv_def)

lemma scrapedPostDoc_createdAt:
  "originalCreatedAt (p_scrapingMetadata (scrapedPostDoc env community pf c q u l t)) = createdAt c"
  by (simp add: scrapedPostDoc_def Let_def)

lemma bulkStage_fresh:
  assumes "lastScrapedAt community = Some T" and "T div 1000 \<noteq> 0"
  shows "establishes (inv (\<lambda>p. T < originalCreatedAt (p_scrapingMetadata p)) w0)
           (bulkStage env community users cfg) (\<lambda>x. True)"
proof -
  let ?I = "inv (\<lambda>p. T < originalCreatedAt (p_scrapingMetadata p)) w0"
  have fr: "frame ?I" by (rule frame_inv)
  have sc: "\<And>n. establishes ?I
     (scrapeContent env
               \<lparr>sc_sourceUrl = pc_sourceUrl cfg,
                sc_keywords = pc_keywords cfg,
                sc_maxPosts = n,
                sc_sort = ''new'',
                sc_excludeStickied = True,
                sc_minCreatedUtc = map_option toUnixSeconds (Some T)\<rparr>)
     (\<lambda>ps. \<forall>c\<in>set ps. T < createdAt c)"
    by (rule scrapeContent_establishes [OF fr]) (simp add: fresh_transformed [OF assms(2)])
  show ?thesis
    unfolding bulkStage_def Let_def assms(1)
    apply (rule est_bind [OF sc])
    apply (rule est_bind [OF filterNewContent_establishes [OF fr]])
    apply (rule est_bind [OF createPostsFromScrapedContent_establishes [OF fr]])
     apply (rule inv_add_post)
      apply (auto simp: scrapedPostDoc_createdAt)[2]
    apply (rule afterCreation_establishes [OF fr])
    done
qed

lemma singleStage_fresh:
  assumes "lastScrapedAt community = Some T" and "T div 1000 \<noteq> 0"
  shows "establishes (inv (\<lambda>p. T < originalCreatedAt (p_scrapingMetadata p)) w0)
           (singleStage env community users cfg) (\<lambda>x. True)"
proof -
  let ?I = "inv (\<lambda>p. T < originalCreatedAt (p_scrapingMetadata p)) w0"
  have fr: "frame ?I" by (rule frame_inv)
  have sc: "\<And>n. establishes ?I
     (scrapeContent env
               \<lparr>sc_sourceUrl = pc_sourceUrl cfg,
                sc_keywords = pc_keywords cfg,
                sc_maxPosts = n,
                sc_sort = ''new'',
                sc_excludeStickied = True,
                sc_minCreatedUtc = map_option toUnixSeconds (Some T)\<rparr>)
     (\<lambda>ps. \<forall>c\<in>set ps. T < createdAt c)"
    by (rule scrapeContent_establishes [OF fr]) (simp add: fresh_transformed [OF assms(2)])
  show ?thesis
    unfolding singleStage_def Let_def assms(1)
    apply (rule est_bind [OF sc])
    apply (rule est_bind [OF filterNewContent_establishes [OF fr]])
    apply (rule est_bind [OF createPostsFromScrapedContent_establishes [OF fr]])
     apply (rule inv_add_post)
      apply (auto simp: scrapedPostDoc_createdAt dest!: in_set_takeD)[2]
    apply (rule afterCreation_establishes [OF fr])
    done
qed

lemma platformStep_establishes:
  assumes "\<And>cfg. establishes I (stage cfg) (\<lambda>x. True)"
  shows "establishes I (platformStep stage cfg acc) (\<lambda>x. True)"
  unfolding platformStep_def
  by (cases acc) (auto intro!: est_ret est_tryCatch est_bind [OF assms])

lemma est_markScraped: "establishes (inv P w0) (markScraped env cid n) (\<lambda>x. True)"
  by (auto simp: establishes_def markScraped_def dbOp_def Let_def inv_def split: option.splits)

lemma est_findPlatformUsers: "frame I \<Longrightarrow> establishes I (findPlatformUsers env) (\<lambda>x. True)"
  unfolding findPlatformUsers_def by (rule est_dbOp_read)

lemma withCommunity_establishes:
  assumes "\<And>users cfg. establishes (inv P w0) (stage community users cfg) (\<lambda>x. True)"
  shows "establishes (inv P w0) (withCommunity env stage cid community) (\<lambda>x. True)"
  unfolding withCommunity_def
  by (auto intro!: est_bind [OF est_findPlatformUsers [OF frame_inv]] est_throw
      est_bind [OF est_forEach [where Q = "\<lambda>x. True"]] platformStep_establishes assms
      est_bind [OF est_markScraped] est_ret)

lemma communityRun_posts:
  assumes st: "\<And>users cfg. establishes (inv P w) (stage community users cfg) (\<lambda>x. True)"
    and f: "find (\<lambda>c. c_id c = cid) (communities w) = Some community"
  shows "inv P w (snd (communityRun env stage cid w))"
proof (cases "fault env (dbOps w)")
  case (Some msg)
  then show ?thesis
    by (simp add: communityRun_unfold bindP_def findCommunityById_def dbOp_def inv_def)
next
  case None
  let ?w1 = "w\<lparr>dbOps := dbOps w + 1\<rparr>"
  have e: "communityRun env stage cid w = withCommunity env stage cid community ?w1"
    using None f by (simp add: communityRun_unfold bindP_def findCommunityById_def dbOp_def)
  obtain out w' where r: "withCommunity env stage cid community ?w1 = (out, w')" by force
  have "inv P w ?w1" by (simp add: inv_def)
  have "establishes (inv P w) (withCommunity env stage cid community) (\<lambda>x. True)"
    by (rule withCommunity_establishes) (rule st)
  from estD [OF this \<open>inv P w ?w1\<close> r] e r show ?thesis by simp
qed

section \<open>Runs on the concrete community\<close>

lemma transformed_fields:
  "item_id (transformRedditPost f r d) = rp_id d"
  "url (transformRedditPost f r d) = baseUrl @ printed (permalink d)"
  "createdAt (transformRedditPost f r d) = created_utc d * 1000"
  "platform (transformRedditPost f r d) = ''reddit''"
  "\<not> stickied (transformRedditPost f r d)" "\<not> pinned (transformRedditPost f r d)"
  by (simp_all add: transformRedditPost_def)

lemma scrapedPostDoc_fields:
  "sourceUrl (scrapedPostDoc env community pf c q u l t) = url c"
  "p_platform (scrapedPostDoc env community pf c q u l t) = pf"
  "originalId (scrapedPostDoc env community pf c q u l t) = item_id c"
  "originalCreatedAt (p_scrapingMetadata (scrapedPostDoc env community pf c q u l t)) = createdAt c"
  "sm_qualityScore (p_scrapingMetadata (scrapedPostDoc env community pf c q u l t)) = q"
  by (simp_all add: scrapedPostDoc_def Let_def)

lemma authenticPostDoc_fields:
  "sourceUrl (authenticPostDoc env community pf c u l t) = url c"
  "p_platform (authenticPostDoc env community pf c u l t) = pf"
  "originalId (authenticPostDoc env community pf c u l t) = item_id c"
  "originalCreatedAt (p_scrapingMetadata (authenticPostDoc env community pf c u l t)) = createdAt c"
  by (simp_all add: authenticPostDoc_def Let_def)

lemma envBiz_fields:
  "upstream envBiz = upstreamBiz" "fault envBiz n = None" "random envBiz n = 0"
  "calculateQualityScore envBiz c = 1" "valid (validateAuthenticity envBiz c)"
  "v_score (validateAuthenticity envBiz c) = 1"
  "isImageUrl envBiz = (\<lambda>u. False)" "\<not> openaiKey envBiz" "fuel envBiz = Suc (Suc (Suc (Suc 0)))"
  by (simp_all add: envBiz_def env0_def)

lemma biz_posts:
  "rp_id postNew = ''new''" "rp_id postOld = ''old''"
  "permalink postNew = Some ''/r/business/comments/new/''"
  "permalink postOld = Some ''/r/business/comments/old/''"
  "created_utc postNew = 1700000001" "created_utc postOld = 1600000000"
  "\<not> rp_stickied postNew" "\<not> rp_stickied postOld"
  by (simp_all add: postNew_def postOld_def rpost0_def)

lemma biz_short: "reachesRandom (passedBody postNew) \<and> reachesRandom (passedBody postOld)"
  by code_simp

lemma biz_configs:
  "pc_isActive cfgBad" "pc_platform cfgBad = ''reddit''" "pc_sourceUrl cfgBad = ''https://example.com/feed''"
  "pc_keywords cfgBad = []"
  "pc_isActive cfgGood" "pc_platform cfgGood = ''reddit''"
  "pc_sourceUrl cfgGood = ''https://www.reddit.com/r/business/''" "pc_keywords cfgGood = []"
  by (simp_all add: cfgBad_def cfgGood_def)

lemma biz_community:
  "c_id communityBiz = ''c1''" "c_name communityBiz = ''Biz''" "scrapingPlatforms communityBiz = [cfgBad, cfgGood]"
  "lastScrapedAt communityBiz = Some 1700000000500" "postCount communityBiz = 7"
  "c_scrapingConfig communityBiz = None" "c_isActive communityBiz"
  by (simp_all add: communityBiz_def)

lemma biz_world:
  "posts worldBiz = []" "communities worldBiz = [communityBiz]" "platformUsers worldBiz = [''u1'']"
  "clock worldBiz = 1700000600000" "requests worldBiz = 0" "dbOps worldBiz = 0" "draws worldBiz = 0"
  "trace worldBiz = []"
  by (simp_all add: worldBiz_def world0_def)

lemma extract_bad: "extractSubreddit ''https://example.com/feed'' = None"
  by simp

lemma extract_good: "extractSubreddit ''https://www.reddit.com/r/business/'' = Some ''business''"
  by simp

lemma scrape_bad:
  "scrapeContent envBiz \<lparr>sc_sourceUrl = ''https://example.com/feed'', sc_keywords = ks, sc_maxPosts = n,
      sc_sort = so, sc_excludeStickied = ex, sc_minCreatedUtc = m\<rparr> w =
   (Throw (Err ''Reddit scraping failed: Invalid Reddit URL - could not extract subreddit'' None), w)"
  by (simp add: scrapeContent_def extract_bad tryCatch_def throw_def)

lemma scrape_good_all:
  "scrapeContent envBiz \<lparr>sc_sourceUrl = ''https://www.reddit.com/r/business/'', sc_keywords = [], sc_maxPosts = 6,
      sc_sort = ''new'', sc_excludeStickied = True, sc_minCreatedUtc = None\<rparr> w =
   (Return [transformRedditPost (\<lambda>u. False) 0 postNew, transformRedditPost (\<lambda>u. False) 0 postOld],
    w\<lparr>requests := requests w + 1, draws := draws w + 2,
      trace := trace w @ [Requested (GetListing ''business'' ''new'' 6 None)]\<rparr>)"
  by (simp add: scrapeContent_def extract_good tryCatch_def bindP_def ret_def fetchRedditPosts_def
      envBiz_fields upstreamBiz_def biz_posts biz_short authorizedGet_def normalizedSort_def truthy_def
      childrenOf_def afterOf_def olderThanMin_def drawFor_def drawBelow_def Let_def)

lemma scrape_good_since:
  "scrapeContent envBiz \<lparr>sc_sourceUrl = ''https://www.reddit.com/r/business/'', sc_keywords = [], sc_maxPosts = 50,
      sc_sort = ''new'', sc_excludeStickied = True, sc_minCreatedUtc = Some 1700000000\<rparr> w =
   (Return [transformRedditPost (\<lambda>u. False) 0 postNew],
    w\<lparr>requests := requests w + 1, draws := draws w + 1,
      trace := trace w @ [Requested (GetListing ''business'' ''new'' 25 None)]\<rparr>)"
  by (simp add: scrapeContent_def extract_good tryCatch_def bindP_def ret_def fetchRedditPosts_def
      envBiz_fields upstreamBiz_def biz_posts biz_short authorizedGet_def normalizedSort_def truthy_def
      childrenOf_def afterOf_def olderThanMin_def drawFor_def drawBelow_def Let_def)

lemma authentic_run:
  "scrapeAuthenticContent envBiz ''c1'' 2 worldBiz =
     (Return \<lparr>communityId = ''c1'', communityName = ''Biz'', cr_postsCreated = 2,
              platformResults =
                [\<lparr>pr_platform = ''reddit'', pr_postsCreated = 0, pr_skippedExisting = 0,
                  pr_skippedLowQuality = 0, success = False,
                  pr_error = Some ''Reddit scraping failed: Invalid Reddit URL - could not extract subreddit''\<rparr>,
                 \<lparr>pr_platform = ''reddit'', pr_postsCreated = 2, pr_skippedExisting = 0,
                  pr_skippedLowQuality = 0, success = True, pr_error = None\<rparr>]\<rparr>,
      worldBiz\<lparr>posts :=
                 [authenticPostDoc envBiz communityBiz ''reddit''
                    ((transformRedditPost (\<lambda>u. False) 0 postNew)\<lparr>qualityScore := Some 1, authenticityScore := Some 1\<rparr>)
                    ''u1'' 5 1700000600000,
                  authenticPostDoc envBiz communityBiz ''reddit''
                    ((transformRedditPost (\<lambda>u. False) 0 postOld)\<lparr>qualityScore := Some 1, authenticityScore := Some 1\<rparr>)
                    ''u1'' 5 1700000600000],
               communities := [scrapedNow 1700000600000 2 communityBiz],
               dbOps := 11, draws := 6, requests := 1,
               trace := [Requested (GetListing ''business'' ''new'' 6 None)]\<rparr>)"
  by (simp add: scrapeAuthenticContent_def communityRun_def bindP_def tryCatch_def ret_def throw_def dbOp_def
      findCommunityById_def findPlatformUsers_def platformStep_def authenticStage_def
      scrape_bad scrape_good_all validateAuthenticContent_def validateOne_def postExists_def
      createPostsFromAuthenticContent_def createFromAuthentic_def draw_def drawBelow_def userAt_def now_def
      createPost_def assignInitialLikesToPost_def afterCreation_def generateCommentsForCreatedPosts_def
      markScraped_def thresholdOr_def Let_def postMatches_def scrapedNow_def noneCreated_def
      envBiz_fields biz_posts biz_configs biz_community biz_world transformed_fields authenticPostDoc_fields
      baseUrl_def printed_def)

lemma bulk_run:
  "scrapeCommunity envBiz ''c1'' worldBiz =
     (Return \<lparr>communityId = ''c1'', communityName = ''Biz'', cr_postsCreated = 1,
              platformResults =
                [\<lparr>pr_platform = ''reddit'', pr_postsCreated = 0, pr_skippedExisting = 0,
                  pr_skippedLowQuality = 0, success = False,
                  pr_error = Some ''Reddit scraping failed: Invalid Reddit URL - could not extract subreddit''\<rparr>,
                 \<lparr>pr_platform = ''reddit'', pr_postsCreated = 1, pr_skippedExisting = 0,
                  pr_skippedLowQuality = 0, success = True, pr_error = None\<rparr>]\<rparr>,
      worldBiz\<lparr>posts :=
                 [scrapedPostDoc envBiz communityBiz ''reddit'' (transformRedditPost (\<lambda>u. False) 0 postNew) 1
                    ''u1'' 5 1700000600000],
               communities := [scrapedNow 1700000600000 1 communityBiz],
               dbOps := 7, draws := 3, requests := 1,
               trace := [Requested (GetListing ''business'' ''new'' 25 None)]\<rparr>)"
  by (simp add: scrapeCommunity_def communityRun_def bindP_def tryCatch_def ret_def throw_def dbOp_def
      findCommunityById_def findPlatformUsers_def platformStep_def bulkStage_def toUnixSeconds_def maxPostsOr_def
      scrape_bad scrape_good_since filterNewContent_def postExists_def
      createPostsFromScrapedContent_def createFromScraped_def draw_def drawBelow_def userAt_def now_def
      createPost_def assignInitialLikesToPost_def afterCreation_def generateCommentsForCreatedPosts_def
      markScraped_def thresholdOr_def Let_def postMatches_def scrapedNow_def noneCreated_def
      envBiz_fields biz_posts biz_configs biz_community biz_world transformed_fields scrapedPostDoc_fields
      baseUrl_def printed_def)


section \<open>The watermark\<close>

text \<open>
  The bulk and the single-post pipeline pass the watermark to the fetch: for a community whose
  \<open>lastScrapedAt\<close> is \<open>T\<close>, with \<open>T\<close> not within the first second of the epoch, a run of
  either, however it ends, persists no record whose upstream timestamp is at or before \<open>T\<close>.
\<close>

lemma bulk_and_single_keep_watermark:
  assumes f: "find (\<lambda>c. c_id c = cid) (communities w) = Some community"
    and l: "lastScrapedAt community = Some T" and z: "T div 1000 \<noteq> 0"
    and r: "run = scrapeCommunity env \<or> run = scrapeSinglePostPerPlatform env"
  shows "\<forall>p\<in>set (posts (snd (run cid w))). p \<in> set (posts w) \<or> T < originalCreatedAt (p_scrapingMetadata p)"
proof -
  let ?P = "\<lambda>p. T < originalCreatedAt (p_scrapingMetadata p)"
  have b: "inv ?P w (snd (scrapeCommunity env cid w))"
    unfolding scrapeCommunity_def
    by (rule communityRun_posts [where community = community and stage = "bulkStage env"])
       (rule bulkStage_fresh [OF l z], rule f)
  have s: "inv ?P w (snd (scrapeSinglePostPerPlatform env cid w))"
    unfolding scrapeSinglePostPerPlatform_def
    by (rule communityRun_posts [where community = community and stage = "singleStage env"])
       (rule singleStage_fresh [OF l z], rule f)
  from r b s show ?thesis
    by (auto simp: inv_def)
qed

text \<open>
  C1, at a concrete run. The community \<open>c1\<close> has \<open>lastScrapedAt = 1700000000500\<close> and no
  record yet; its active source lists an item created at \<open>1700000001000\<close> and one created at
  \<open>1600000000000\<close>. The bulk run persists the first only. The authentic run calls
  \<open>scrapeContent\<close> without \<open>minCreatedUtc\<close>, which both other modes pass, and persists both:
  a record whose upstream timestamp is before the watermark. Like the other modes it then
  writes \<open>lastScrapedAt\<close>.
\<close>

theorem scrapeAuthenticContent_ignores_watermark:
  "communities worldBiz = [communityBiz] \<and> c_id communityBiz = ''c1''
   \<and> lastScrapedAt communityBiz = Some 1700000000500 \<and> posts worldBiz = []
   \<and> map (originalCreatedAt \<circ> p_scrapingMetadata) (posts (snd (scrapeCommunity envBiz ''c1'' worldBiz)))
       = [1700000001000]
   \<and> map (originalCreatedAt \<circ> p_scrapingMetadata) (posts (snd (scrapeAuthenticContent envBiz ''c1'' 2 worldBiz)))
       = [1700000001000, 1600000000000]
   \<and> (1600000000000 :: int) \<le> 1700000000500
   \<and> map lastScrapedAt (communities (snd (scrapeAuthenticContent envBiz ''c1'' 2 worldBiz)))
       = [Some 1700000600000]"
  by (simp add: authentic_run bulk_run authenticPostDoc_fields scrapedPostDoc_fields transformed_fields
      biz_posts biz_world biz_community scrapedNow_def)


section \<open>The quality gate\<close>

lemma validateOne_establishes:
  assumes fr: "frame I" and a: "\<forall>c\<in>set acc. Q c"
    and q: "\<And>v. \<not> calculateQualityScore env c < thresholdOr 0.6 community \<Longrightarrow>
              Q (c\<lparr>qualityScore := Some (calculateQualityScore env c), authenticityScore := Some v\<rparr>)"
  shows "establishes I (validateOne env community maxPosts c acc) (\<lambda>r. \<forall>c\<in>set (fst r). Q c)"
  unfolding validateOne_def Let_def postExists_def
  using a
  by (auto intro!: est_tryCatch est_bind [OF est_dbOp_read [OF fr]] est_ret q)

lemma validateLoop_establishes:
  assumes fr: "frame I"
    and q: "\<And>c v. c \<in> set items \<Longrightarrow> \<not> calculateQualityScore env c < thresholdOr 0.6 community \<Longrightarrow>
              Q (c\<lparr>qualityScore := Some (calculateQualityScore env c), authenticityScore := Some v\<rparr>)"
  shows "\<forall>c\<in>set acc. Q c \<Longrightarrow>
         establishes I (validateLoop env community maxPosts items acc) (\<lambda>r. \<forall>c\<in>set r. Q c)"
  using q
proof (induction items arbitrary: acc)
  case Nil
  then show ?case by (simp add: est_ret)
next
  case (Cons c cs)
  have one: "establishes I (validateOne env community maxPosts c acc) (\<lambda>r. \<forall>c\<in>set (fst r). Q c)"
    by (rule validateOne_establishes [OF fr Cons.prems(1)]) (rule Cons.prems(2), simp_all)
  show ?case
    unfolding validateLoop.simps
  proof (rule est_bind [OF one])
    fix x :: "item list \<times> bool"
    assume x: "\<forall>c\<in>set (fst x). Q c"
    have ih: "establishes I (validateLoop env community maxPosts cs (fst x)) (\<lambda>r. \<forall>c\<in>set r. Q c)"
      by (rule Cons.IH [OF x]) (rule Cons.prems(2), simp_all)
    show "establishes I (case x of (authenticContent', stop) \<Rightarrow>
             if stop then ret authenticContent' else validateLoop env community maxPosts cs authenticContent')
           (\<lambda>r. \<forall>c\<in>set r. Q c)"
      using x ih by (cases x) (auto intro!: est_ret)
  qed
qed

lemma bulkStage_establishes:
  assumes fr: "frame I"
    and g: "\<And>c u l t w. \<not> calculateQualityScore env c < thresholdOr 0.5 community \<Longrightarrow> I w \<Longrightarrow>
              I (w\<lparr>posts := posts w @ [scrapedPostDoc env community pf c (calculateQualityScore env c) u l t]\<rparr>)"
    and pf: "pf = pc_platform cfg"
  shows "establishes I (bulkStage env community users cfg) (\<lambda>x. True)"
  unfolding bulkStage_def Let_def
  apply (rule est_bind [OF scrapeContent_establishes [OF fr, where Q = "\<lambda>x. True"]])
   apply simp
  apply (rule est_bind [OF filterNewContent_establishes [OF fr]])
  apply (rule est_bind [OF createPostsFromScrapedContent_establishes [OF fr]])
   apply (rule g [unfolded pf], assumption, assumption)
  apply (rule afterCreation_establishes [OF fr])
  done

lemma singleStage_establishes:
  assumes fr: "frame I"
    and g: "\<And>c u l t w. \<not> calculateQualityScore env c < thresholdOr 0.5 community \<Longrightarrow> I w \<Longrightarrow>
              I (w\<lparr>posts := posts w @ [scrapedPostDoc env community pf c (calculateQualityScore env c) u l t]\<rparr>)"
    and pf: "pf = pc_platform cfg"
  shows "establishes I (singleStage env community users cfg) (\<lambda>x. True)"
  unfolding singleStage_def Let_def
  apply (rule est_bind [OF scrapeContent_establishes [OF fr, where Q = "\<lambda>x. True"]])
   apply simp
  apply (rule est_bind [OF filterNewContent_establishes [OF fr]])
  apply (rule est_bind [OF createPostsFromScrapedContent_establishes [OF fr]])
   apply (rule g [unfolded pf], assumption, assumption)
  apply (rule afterCreation_establishes [OF fr])
  done

lemma authenticStage_establishes:
  assumes fr: "frame I"
    and g: "\<And>c v u l t w. \<not> calculateQualityScore env c < thresholdOr 0.6 community \<Longrightarrow> I w \<Longrightarrow>
              I (w\<lparr>posts := posts w @ [authenticPostDoc env community pf
                   (c\<lparr>qualityScore := Some (calculateQualityScore env c), authenticityScore := Some v\<rparr>) u l t]\<rparr>)"
    and pf: "pf = pc_platform cfg"
  shows "establishes I (authenticStage env n community users cfg) (\<lambda>x. True)"
proof -
  let ?Q = "\<lambda>c'. \<exists>c v. \<not> calculateQualityScore env c < thresholdOr 0.6 community \<and>
                c' = c\<lparr>qualityScore := Some (calculateQualityScore env c), authenticityScore := Some v\<rparr>"
  have v: "\<And>items. establishes I (validateAuthenticContent env items community n) (\<lambda>r. \<forall>c\<in>set r. ?Q c)"
    unfolding validateAuthenticContent_def
    by (rule validateLoop_establishes [OF fr]) auto
  show ?thesis
    unfolding authenticStage_def
    apply (rule est_bind [OF scrapeContent_establishes [OF fr, where Q = "\<lambda>x. True"]])
     apply simp
    apply (rule est_bind [OF v])
    apply (rule est_bind [OF createPostsFromAuthenticContent_establishes [OF fr]])
    subgoal for x xa c u l t w
      using g [unfolded pf, of _ w _ u l t] by fastforce
    apply (rule afterCreation_establishes [OF fr])
    done
qed

lemma authenticPostDoc_quality:
  "sm_qualityScore (p_scrapingMetadata
     (authenticPostDoc env community pf (c\<lparr>qualityScore := Some q, authenticityScore := Some v\<rparr>) u l t)) = q"
  by (simp add: authenticPostDoc_def Let_def)

lemma scrapedPostDoc_quality:
  "sm_qualityScore (p_scrapingMetadata (scrapedPostDoc env community pf c q u l t)) = q"
  by (simp add: scrapedPostDoc_def Let_def)

text \<open>
  The gate itself holds in every mode: each record that a run adds has a quality score at or
  above the threshold in force, \<open>qualityThreshold || 0.5\<close> or \<open>qualityThreshold || 0.6\<close>.
\<close>

lemma quality_gate_persisted:
  assumes f: "find (\<lambda>c. c_id c = cid) (communities w) = Some community"
    and m: "(run = scrapeCommunity env \<and> d = 0.5) \<or> (run = scrapeSinglePostPerPlatform env \<and> d = 0.5)
            \<or> (run = (\<lambda>cid. scrapeAuthenticContent env cid n) \<and> d = 0.6)"
  shows "\<forall>p\<in>set (posts (snd (run cid w))).
           p \<in> set (posts w) \<or> thresholdOr d community \<le> sm_qualityScore (p_scrapingMetadata p)"
proof -
  let ?P = "\<lambda>d p. thresholdOr d community \<le> sm_qualityScore (p_scrapingMetadata p)"
  have b: "\<And>users cfg. establishes (inv (?P 0.5) w) (bulkStage env community users cfg) (\<lambda>x. True)"
    by (rule bulkStage_establishes [OF frame_inv, where pf = "pc_platform cfg" for cfg])
       (auto intro!: inv_add_post simp: scrapedPostDoc_quality)
  have s: "\<And>users cfg. establishes (inv (?P 0.5) w) (singleStage env community users cfg) (\<lambda>x. True)"
    by (rule singleStage_establishes [OF frame_inv, where pf = "pc_platform cfg" for cfg])
       (auto intro!: inv_add_post simp: scrapedPostDoc_quality)
  have a: "\<And>users cfg. establishes (inv (?P 0.6) w) (authenticStage env n community users cfg) (\<lambda>x. True)"
    by (rule authenticStage_establishes [OF frame_inv, where pf = "pc_platform cfg" for cfg])
       (auto intro!: inv_add_post simp: authenticPostDoc_quality)
  have 1: "inv (?P 0.5) w (snd (scrapeCommunity env cid w))"
    unfolding scrapeCommunity_def
    by (rule communityRun_posts [where community = community and stage = "bulkStage env"])
       (rule b, rule f)
  have 2: "inv (?P 0.5) w (snd (scrapeSinglePostPerPlatform env cid w))"
    unfolding scrapeSinglePostPerPlatform_def
    by (rule communityRun_posts [where community = community and stage = "singleStage env"])
       (rule s, rule f)
  have 3: "inv (?P 0.6) w (snd (scrapeAuthenticContent env cid n w))"
    unfolding scrapeAuthenticContent_def
    by (rule communityRun_posts [where community = community and stage = "authenticStage env n"])
       (rule a, rule f)
  from m consider (bulk) "run = scrapeCommunity env" "d = 0.5"
    | (single) "run = scrapeSinglePostPerPlatform env" "d = 0.5"
    | (authentic) "run = (\<lambda>cid. scrapeAuthenticContent env cid n)" "d = 0.6"
    by blast
  then have "inv (?P d) w (snd (run cid w))"
  proof cases
    case bulk
    from 1 show ?thesis by (simp only: bulk)
  next
    case single
    from 2 show ?thesis by (simp only: single)
  next
    case authentic
    from 3 show ?thesis by (simp only: authentic)
  qed
  then show ?thesis
    by (simp only: inv_def)
qed

lemma envLowQuality_fields:
  "upstream envLowQuality = upstreamBiz" "fault envLowQuality n = None" "random envLowQuality n = 0"
  "calculateQualityScore envLowQuality c = (if item_id c = ''old'' then 0.2 else 0.9)"
  "valid (validateAuthenticity envLowQuality c)" "v_score (validateAuthenticity envLowQuality c) = 1"
  "isImageUrl envLowQuality = (\<lambda>u. False)" "\<not> openaiKey envLowQuality"
  "fuel envLowQuality = Suc (Suc (Suc (Suc 0)))"
  by (simp_all add: envLowQuality_def envBiz_def env0_def)

lemma scrape_bad_low:
  "scrapeContent envLowQuality \<lparr>sc_sourceUrl = ''https://example.com/feed'', sc_keywords = ks, sc_maxPosts = n,
      sc_sort = so, sc_excludeStickied = ex, sc_minCreatedUtc = m\<rparr> w =
   (Throw (Err ''Reddit scraping failed: Invalid Reddit URL - could not extract subreddit'' None), w)"
  by (simp add: scrapeContent_def extract_bad tryCatch_def throw_def)

lemma scrape_good_low:
  "scrapeContent envLowQuality \<lparr>sc_sourceUrl = ''https://www.reddit.com/r/business/'', sc_keywords = [],
      sc_maxPosts = 6, sc_sort = ''new'', sc_excludeStickied = True, sc_minCreatedUtc = None\<rparr> w =
   (Return [transformRedditPost (\<lambda>u. False) 0 postNew, transformRedditPost (\<lambda>u. False) 0 postOld],
    w\<lparr>requests := requests w + 1, draws := draws w + 2,
      trace := trace w @ [Requested (GetListing ''business'' ''new'' 6 None)]\<rparr>)"
  by (simp add: scrapeContent_def extract_good tryCatch_def bindP_def ret_def fetchRedditPosts_def
      envLowQuality_fields upstreamBiz_def biz_posts biz_short authorizedGet_def normalizedSort_def truthy_def
      childrenOf_def afterOf_def olderThanMin_def drawFor_def drawBelow_def Let_def)

text \<open>
  C3, at a concrete run. The scorer rates the item \<open>old\<close> at 0.2, below the default threshold
  0.6 of authentic mode (and below 0.5). The authentic run drops it, in
  \<open>validateAuthenticContent\<close>, and persists only the other item, but the result it reports for the
  source has \<open>skippedLowQuality = 0\<close>: \<open>createPostsFromAuthenticContent\<close> declares, logs and
  returns that counter and never increments it. On the same two items
  \<open>createPostsFromScrapedContent\<close>, the creator of the other two modes, reports
  \<open>skippedLowQuality = 1\<close>.
\<close>

theorem authentic_low_quality_not_counted:
  "calculateQualityScore envLowQuality (transformRedditPost (\<lambda>u. False) 0 postOld) = 0.2
   \<and> thresholdOr 0.6 communityBiz = 0.6 \<and> thresholdOr 0.5 communityBiz = 0.5
   \<and> scrapeAuthenticContent envLowQuality ''c1'' 2 worldBiz =
     (Return \<lparr>communityId = ''c1'', communityName = ''Biz'', cr_postsCreated = 1,
              platformResults =
                [\<lparr>pr_platform = ''reddit'', pr_postsCreated = 0, pr_skippedExisting = 0,
                  pr_skippedLowQuality = 0, success = False,
                  pr_error = Some ''Reddit scraping failed: Invalid Reddit URL - could not extract subreddit''\<rparr>,
                 \<lparr>pr_platform = ''reddit'', pr_postsCreated = 1, pr_skippedExisting = 0,
                  pr_skippedLowQuality = 0, success = True, pr_error = None\<rparr>]\<rparr>,
      worldBiz\<lparr>posts :=
                 [authenticPostDoc envLowQuality communityBiz ''reddit''
                    ((transformRedditPost (\<lambda>u. False) 0 postNew)\<lparr>qualityScore := Some 0.9, authenticityScore := Some 1\<rparr>)
                    ''u1'' 5 1700000600000],
               communities := [scrapedNow 1700000600000 1 communityBiz],
               dbOps := 8, draws := 4, requests := 1,
               trace := [Requested (GetListing ''business'' ''new'' 6 None)]\<rparr>)
   \<and> createPostsFromScrapedContent envLowQuality
        [transformRedditPost (\<lambda>u. False) 0 postNew, transformRedditPost (\<lambda>u. False) 0 postOld]
        communityBiz ''reddit'' [''u1''] worldBiz =
     (Return \<lparr>postsCreated = 1, createdItems = [transformRedditPost (\<lambda>u. False) 0 postNew],
              skippedExisting = 0, skippedLowQuality = 1\<rparr>,
      worldBiz\<lparr>posts :=
                 [scrapedPostDoc envLowQuality communityBiz ''reddit'' (transformRedditPost (\<lambda>u. False) 0 postNew)
                    0.9 ''u1'' 5 1700000600000],
               dbOps := 4, draws := 2\<rparr>)"
proof -
  have q: "calculateQualityScore envLowQuality (transformRedditPost (\<lambda>u. False) 0 postOld) = 0.2"
    by (simp add: envLowQuality_fields transformed_fields biz_posts)
  have t: "thresholdOr 0.6 communityBiz = 0.6" "thresholdOr 0.5 communityBiz = 0.5"
    by (simp_all add: thresholdOr_def biz_community)
  have a: "scrapeAuthenticContent envLowQuality ''c1'' 2 worldBiz =
     (Return \<lparr>communityId = ''c1'', communityName = ''Biz'', cr_postsCreated = 1,
              platformResults =
                [\<lparr>pr_platform = ''reddit'', pr_postsCreated = 0, pr_skippedExisting = 0,
                  pr_skippedLowQuality = 0, success = False,
                  pr_error = Some ''Reddit scraping failed: Invalid Reddit URL - could not extract subreddit''\<rparr>,
                 \<lparr>pr_platform = ''reddit'', pr_postsCreated = 1, pr_skippedExisting = 0,
                  pr_skippedLowQuality = 0, success = True, pr_error = None\<rparr>]\<rparr>,
      worldBiz\<lparr>posts :=
                 [authenticPostDoc envLowQuality communityBiz ''reddit''
                    ((transformRedditPost (\<lambda>u. False) 0 postNew)\<lparr>qualityScore := Some 0.9, authenticityScore := Some 1\<rparr>)
                    ''u1'' 5 1700000600000],
               communities := [scrapedNow 1700000600000 1 communityBiz],
               dbOps := 8, draws := 4, requests := 1,
               trace := [Requested (GetListing ''business'' ''new'' 6 None)]\<rparr>)"
    by (simp add: scrapeAuthenticContent_def communityRun_def bindP_def tryCatch_def ret_def throw_def dbOp_def
      findCommunityById_def findPlatformUsers_def platformStep_def authenticStage_def
      scrape_bad_low scrape_good_low validateAuthenticContent_def validateOne_def postExists_def
      createPostsFromAuthenticContent_def createFromAuthentic_def draw_def drawBelow_def userAt_def now_def
      createPost_def assignInitialLikesToPost_def afterCreation_def generateCommentsForCreatedPosts_def
      markScraped_def thresholdOr_def Let_def postMatches_def scrapedNow_def noneCreated_def
      envLowQuality_fields biz_posts biz_configs biz_community biz_world transformed_fields
      authenticPostDoc_fields baseUrl_def printed_def)
  have b: "createPostsFromScrapedContent envLowQuality
        [transformRedditPost (\<lambda>u. False) 0 postNew, transformRedditPost (\<lambda>u. False) 0 postOld]
        communityBiz ''reddit'' [''u1''] worldBiz =
     (Return \<lparr>postsCreated = 1, createdItems = [transformRedditPost (\<lambda>u. False) 0 postNew],
              skippedExisting = 0, skippedLowQuality = 1\<rparr>,
      worldBiz\<lparr>posts :=
                 [scrapedPostDoc envLowQuality communityBiz ''reddit'' (transformRedditPost (\<lambda>u. False) 0 postNew)
                    0.9 ''u1'' 5 1700000600000],
               dbOps := 4, draws := 2\<rparr>)"
    by (simp add: bindP_def tryCatch_def ret_def throw_def dbOp_def postExists_def
      createPostsFromScrapedContent_def createFromScraped_def draw_def drawBelow_def userAt_def now_def
      createPost_def assignInitialLikesToPost_def
      thresholdOr_def Let_def postMatches_def noneCreated_def
      envLowQuality_fields biz_posts biz_community biz_world transformed_fields
      scrapedPostDoc_fields baseUrl_def printed_def)
  from q t a b show ?thesis by blast
qed


section \<open>Isolation of a failing source\<close>

lemma platformStep_result:
  "platformStep stage cfg (t, r) w = (Return (t1, r1), w1) \<Longrightarrow>
   \<exists>new. r1 = r @ new \<and> map pr_platform new = map pc_platform (filter processed [cfg])
         \<and> t1 = t + sum_list (map pr_postsCreated new)"
  by (auto simp: platformStep_def processed_def tryCatch_def bindP_def ret_def
      split: if_splits prod.splits outcome.splits)

lemma platformLoop_results:
  "forEach (platformStep stage) cfgs (t, r) w = (Return (t', r'), w') \<Longrightarrow>
   \<exists>new. r' = r @ new \<and> map pr_platform new = map pc_platform (filter processed cfgs)
         \<and> t' = t + sum_list (map pr_postsCreated new)"
proof (induction cfgs arbitrary: t r w)
  case Nil
  then show ?case by (simp add: ret_def)
next
  case (Cons c cs)
  obtain o1 w1 where s: "platformStep stage c (t, r) w = (o1, w1)" by force
  with Cons.prems obtain t1 r1 where o: "o1 = Return (t1, r1)"
    and rest: "forEach (platformStep stage) cs (t1, r1) w1 = (Return (t', r'), w')"
    by (cases o1) (auto simp: bindP_def)
  from platformStep_result [OF s [unfolded o]] obtain n1 where
    n1: "r1 = r @ n1" "map pr_platform n1 = map pc_platform (filter processed [c])"
        "t1 = t + sum_list (map pr_postsCreated n1)" by blast
  from Cons.IH [OF rest] obtain n2 where
    n2: "r' = r1 @ n2" "map pr_platform n2 = map pc_platform (filter processed cs)"
        "t' = t1 + sum_list (map pr_postsCreated n2)" by blast
  have "r' = r @ (n1 @ n2)" using n1 n2 by simp
  moreover have "map pr_platform (n1 @ n2) = map pc_platform (filter processed (c # cs))"
    using n1 n2 by simp
  moreover have "t' = t + sum_list (map pr_postsCreated (n1 @ n2))" using n1 n2 by simp
  ultimately show ?case by blast
qed

lemma platformLoop_failure:
  "processed cfg \<Longrightarrow> stage cfg wa = (Throw e, wb) \<Longrightarrow>
   forEach (platformStep stage) (cfg # rest) acc wa =
     forEach (platformStep stage) rest (fst acc, snd acc @ [failed cfg e]) wb"
  by (cases acc) (simp add: platformStep_def processed_def tryCatch_def bindP_def ret_def failed_def)

lemma updateFirst_find:
  "find P xs = Some x \<Longrightarrow> (\<And>y. P y \<Longrightarrow> P (f y)) \<Longrightarrow> find P (updateFirst P f xs) = Some (f x)"
  by (induction xs) (auto split: if_splits)

lemma communities_frame: "frame (\<lambda>w'. communities w' = cs \<and> platformUsers w' = us)"
  by (simp add: frame_def)

lemma platformLoop_communities:
  assumes "stage = bulkStage env community users \<or> stage = singleStage env community users
           \<or> stage = authenticStage env n community users"
  shows "establishes (\<lambda>w'. communities w' = cs \<and> platformUsers w' = us)
           (forEach (platformStep stage) cfgs acc) (\<lambda>x. True)"
proof -
  let ?I = "\<lambda>w'. communities w' = cs \<and> platformUsers w' = us"
  have b: "\<And>cfg. establishes ?I (bulkStage env community users cfg) (\<lambda>x. True)"
    by (rule bulkStage_establishes [OF communities_frame]) simp_all
  have s: "\<And>cfg. establishes ?I (singleStage env community users cfg) (\<lambda>x. True)"
    by (rule singleStage_establishes [OF communities_frame]) simp_all
  have a: "\<And>cfg. establishes ?I (authenticStage env n community users cfg) (\<lambda>x. True)"
    by (rule authenticStage_establishes [OF communities_frame]) simp_all
  from assms b s a have st: "\<And>cfg. establishes ?I (stage cfg) (\<lambda>x. True)" by blast
  show ?thesis
    by (rule est_forEach [where Q = "\<lambda>x. True"]) (simp_all add: platformStep_establishes [OF st])
qed

lemma forEach_append: "forEach step (xs @ ys) s w = bindP (forEach step xs s) (forEach step ys) w"
proof (induction xs arbitrary: s w)
  case Nil
  show ?case by (simp add: bindP_def ret_def)
next
  case (Cons x xs)
  show ?case by (simp add: Cons.IH bindP_def split: prod.splits outcome.splits)
qed

lemma platformStep_no_throw: "fst (platformStep stage cfg acc w) \<noteq> Throw e"
  by (cases acc)
     (auto simp: platformStep_def tryCatch_def bindP_def ret_def split: prod.splits outcome.splits)

lemma platformLoop_no_throw: "fst (forEach (platformStep stage) cfgs acc w) \<noteq> Throw e"
proof (induction cfgs arbitrary: acc w)
  case Nil
  show ?case by (simp add: ret_def)
next
  case (Cons c cs)
  obtain o1 w1 where s: "platformStep stage c acc w = (o1, w1)" by force
  from platformStep_no_throw [of stage c acc w] s have "\<And>e. o1 \<noteq> Throw e" by simp
  with s Cons.IH show ?case
    by (cases o1) (simp_all add: bindP_def)
qed

lemma platformStep_settles:
  assumes a: "\<And>cfg wa. fst (stage cfg wa) \<noteq> Diverge"
  shows "\<exists>x wb. platformStep stage cfg acc w = (Return x, wb)"
proof -
  obtain o1 w1 where s: "stage cfg w = (o1, w1)" by force
  with a [of cfg w] have "o1 \<noteq> Diverge" by simp
  with s show ?thesis
    by (cases acc; cases o1)
       (simp_all add: platformStep_def tryCatch_def bindP_def ret_def)
qed

lemma platformLoop_settles:
  assumes a: "\<And>cfg wa. fst (stage cfg wa) \<noteq> Diverge"
  shows "\<exists>x wb. forEach (platformStep stage) cfgs acc w = (Return x, wb)"
proof (induction cfgs arbitrary: acc w)
  case Nil
  show ?case by (simp add: ret_def)
next
  case (Cons c cs)
  from platformStep_settles [where stage = stage and cfg = c and acc = acc and w = w] a
  obtain x wb where "platformStep stage c acc w = (Return x, wb)"
    by blast
  with Cons.IH [of x wb] show ?case
    by (simp add: bindP_def)
qed

text \<open>
  C6. Take a run of any of the three pipelines on a community that the store finds, with
  platform users, whose two reads and whose final update the store does not reject, and whose
  loop over the source configurations ends with \<open>created\<close> and \<open>results\<close>. Then the run
  returns these, and the community has \<open>lastScrapedAt\<close> set to the time of the update and
  \<open>postCount\<close> increased by \<open>created\<close>, once; the results list one entry per active
  \<open>reddit\<close> configuration, in order, and \<open>created\<close> is the sum of their counts. If the stage of
  a configuration throws when the loop reaches it, the loop goes on with the remaining
  configurations from the world the failure left, and the entry \<open>failed cfg e\<close>, with
  \<open>success = False\<close> and the message, is among the results. The loop itself never throws, and
  it returns whenever every stage settles.
\<close>

theorem partial_failure_isolation:
  assumes m: "(run = scrapeCommunity env \<and> stage = bulkStage env)
            \<or> (run = scrapeSinglePostPerPlatform env \<and> stage = singleStage env)
            \<or> (run = (\<lambda>cid. scrapeAuthenticContent env cid n) \<and> stage = authenticStage env n)"
    and f: "find (\<lambda>c. c_id c = cid) (communities w) = Some community"
    and u: "platformUsers w \<noteq> []"
    and f1: "fault env (dbOps w) = None" and f2: "fault env (dbOps w + 1) = None"
    and l: "forEach (platformStep (stage community (platformUsers w))) (scrapingPlatforms community) (0, [])
              (w\<lparr>dbOps := dbOps w + 2\<rparr>) = (Return (created, results), w2)"
    and f3: "fault env (dbOps w2) = None"
  shows "run cid w =
           (Return \<lparr>communityId = cid, communityName = c_name community, cr_postsCreated = created,
                    platformResults = results\<rparr>,
            w2\<lparr>dbOps := dbOps w2 + 1,
               communities := updateFirst (\<lambda>c. c_id c = cid) (scrapedNow (clock w2) created) (communities w2)\<rparr>)
       \<and> find (\<lambda>c. c_id c = cid) (communities (snd (run cid w))) = Some (scrapedNow (clock w2) created community)
       \<and> map pr_platform results = map pc_platform (filter processed (scrapingPlatforms community))
       \<and> created = sum_list (map pr_postsCreated results)
       \<and> (\<forall>pre cfg rest acc wa e wb.
             scrapingPlatforms community = pre @ cfg # rest \<and> processed cfg
             \<and> forEach (platformStep (stage community (platformUsers w))) pre (0, []) (w\<lparr>dbOps := dbOps w + 2\<rparr>)
                 = (Return acc, wa)
             \<and> stage community (platformUsers w) cfg wa = (Throw e, wb) \<longrightarrow>
             forEach (platformStep (stage community (platformUsers w))) rest
               (fst acc, snd acc @ [failed cfg e]) wb = (Return (created, results), w2)
             \<and> failed cfg e \<in> set results)
       \<and> (\<forall>cfgs acc wa e. fst (forEach (platformStep (stage community (platformUsers w))) cfgs acc wa) \<noteq> Throw e)
       \<and> ((\<forall>cfg wa. fst (stage community (platformUsers w) cfg wa) \<noteq> Diverge) \<longrightarrow>
            (\<forall>cfgs acc wa. \<exists>x wb.
               forEach (platformStep (stage community (platformUsers w))) cfgs acc wa = (Return x, wb)))"
proof -
  let ?step = "platformStep (stage community (platformUsers w))"
  have r: "run = communityRun env stage"
    using m by (auto simp: scrapeCommunity_def scrapeSinglePostPerPlatform_def scrapeAuthenticContent_def)
  have sn: "scrapedNow = (\<lambda>t n c. c\<lparr>lastScrapedAt := Some (int t), postCount := postCount c + n\<rparr>)"
    by (simp add: scrapedNow_def fun_eq_iff)
  have e: "run cid w =
           (Return \<lparr>communityId = cid, communityName = c_name community, cr_postsCreated = created,
                    platformResults = results\<rparr>,
            w2\<lparr>dbOps := dbOps w2 + 1,
               communities := updateFirst (\<lambda>c. c_id c = cid) (scrapedNow (clock w2) created) (communities w2)\<rparr>)"
    using f u f1 f2 l f3
    by (simp add: r communityRun_def bindP_def findCommunityById_def findPlatformUsers_def dbOp_def
        markScraped_def ret_def sn)
  have st: "stage community (platformUsers w) = bulkStage env community (platformUsers w)
          \<or> stage community (platformUsers w) = singleStage env community (platformUsers w)
          \<or> stage community (platformUsers w) = authenticStage env n community (platformUsers w)"
    using m by auto
  have "communities w2 = communities w \<and> platformUsers w2 = platformUsers w"
    using estD [OF platformLoop_communities [OF st] _ l] by simp
  then have c: "find (\<lambda>c. c_id c = cid) (communities w2) = Some community"
    using f by simp
  have fd: "find (\<lambda>c. c_id c = cid) (communities (snd (run cid w))) = Some (scrapedNow (clock w2) created community)"
    unfolding e using updateFirst_find [OF c, of "scrapedNow (clock w2) created"]
    by (simp add: scrapedNow_def)
  from platformLoop_results [OF l] have pr:
    "map pr_platform results = map pc_platform (filter processed (scrapingPlatforms community))"
    "created = sum_list (map pr_postsCreated results)"
    by auto
  have iso: "\<forall>pre cfg rest acc wa e wb.
             scrapingPlatforms community = pre @ cfg # rest \<and> processed cfg
             \<and> forEach ?step pre (0, []) (w\<lparr>dbOps := dbOps w + 2\<rparr>) = (Return acc, wa)
             \<and> stage community (platformUsers w) cfg wa = (Throw e, wb) \<longrightarrow>
             forEach ?step rest (fst acc, snd acc @ [failed cfg e]) wb = (Return (created, results), w2)
             \<and> failed cfg e \<in> set results"
  proof (intro allI impI)
    fix pre cfg rest acc wa e wb
    assume h: "scrapingPlatforms community = pre @ cfg # rest \<and> processed cfg
             \<and> forEach ?step pre (0, []) (w\<lparr>dbOps := dbOps w + 2\<rparr>) = (Return acc, wa)
             \<and> stage community (platformUsers w) cfg wa = (Throw e, wb)"
    from l h have "forEach ?step (cfg # rest) acc wa = (Return (created, results), w2)"
      by (simp add: forEach_append bindP_def del: forEach.simps)
    with h platformLoop_failure [of cfg "stage community (platformUsers w)" wa e wb rest acc]
    have k: "forEach ?step rest (fst acc, snd acc @ [failed cfg e]) wb = (Return (created, results), w2)"
      by simp
    from platformLoop_results [OF k] have "failed cfg e \<in> set results" by auto
    with k show "forEach ?step rest (fst acc, snd acc @ [failed cfg e]) wb = (Return (created, results), w2)
             \<and> failed cfg e \<in> set results" by simp
  qed
  have nt: "\<forall>cfgs acc wa e. fst (forEach ?step cfgs acc wa) \<noteq> Throw e"
    using platformLoop_no_throw by blast
  have se: "(\<forall>cfg wa. fst (stage community (platformUsers w) cfg wa) \<noteq> Diverge) \<longrightarrow>
            (\<forall>cfgs acc wa. \<exists>x wb. forEach ?step cfgs acc wa = (Return x, wb))"
    using platformLoop_settles [where stage = "stage community (platformUsers w)"] by blast
  from e fd pr iso nt se show ?thesis
    by blast
qed

lemma biz_loop:
  "forEach (platformStep (bulkStage envBiz communityBiz [''u1''])) [cfgBad, cfgGood] (0, [])
     (worldBiz\<lparr>dbOps := 2\<rparr>) =
   (Return (1, [failed cfgBad (Err ''Reddit scraping failed: Invalid Reddit URL - could not extract subreddit'' None),
                \<lparr>pr_platform = ''reddit'', pr_postsCreated = 1, pr_skippedExisting = 0,
                  pr_skippedLowQuality = 0, success = True, pr_error = None\<rparr>]),
    worldBiz\<lparr>posts :=
                 [scrapedPostDoc envBiz communityBiz ''reddit'' (transformRedditPost (\<lambda>u. False) 0 postNew) 1
                    ''u1'' 5 1700000600000],
             dbOps := 6, draws := 3, requests := 1,
             trace := [Requested (GetListing ''business'' ''new'' 25 None)]\<rparr>)"
  by (simp add: bindP_def tryCatch_def ret_def throw_def dbOp_def failed_def
      platformStep_def bulkStage_def toUnixSeconds_def maxPostsOr_def
      scrape_bad scrape_good_since filterNewContent_def postExists_def
      createPostsFromScrapedContent_def createFromScraped_def draw_def drawBelow_def userAt_def now_def
      createPost_def assignInitialLikesToPost_def afterCreation_def generateCommentsForCreatedPosts_def
      thresholdOr_def Let_def postMatches_def noneCreated_def
      envBiz_fields biz_posts biz_configs biz_community biz_world transformed_fields scrapedPostDoc_fields
      baseUrl_def printed_def)

theorem partial_failure_isolation_witness:
  "find (\<lambda>c. c_id c = ''c1'') (communities worldBiz) = Some communityBiz
   \<and> platformUsers worldBiz = [''u1'']
   \<and> fault envBiz 0 = None \<and> fault envBiz 1 = None \<and> fault envBiz 6 = None
   \<and> scrapingPlatforms communityBiz = [cfgBad, cfgGood]
   \<and> bulkStage envBiz communityBiz [''u1''] cfgBad (worldBiz\<lparr>dbOps := 2\<rparr>) =
       (Throw (Err ''Reddit scraping failed: Invalid Reddit URL - could not extract subreddit'' None),
        worldBiz\<lparr>dbOps := 2\<rparr>)
   \<and> fst (scrapeCommunity envBiz ''c1'' worldBiz) =
       Return \<lparr>communityId = ''c1'', communityName = ''Biz'', cr_postsCreated = 1,
               platformResults =
                 [failed cfgBad (Err ''Reddit scraping failed: Invalid Reddit URL - could not extract subreddit'' None),
                  \<lparr>pr_platform = ''reddit'', pr_postsCreated = 1, pr_skippedExisting = 0,
                    pr_skippedLowQuality = 0, success = True, pr_error = None\<rparr>]\<rparr>
   \<and> find (\<lambda>c. c_id c = ''c1'') (communities (snd (scrapeCommunity envBiz ''c1'' worldBiz))) =
       Some (communityBiz\<lparr>lastScrapedAt := Some 1700000600000, postCount := 8\<rparr>)
   \<and> success (failed cfgBad (Err ''Reddit scraping failed: Invalid Reddit URL - could not extract subreddit'' None))
       = False"
proof -
  let ?e = "Err ''Reddit scraping failed: Invalid Reddit URL - could not extract subreddit'' None"
  have m: "(scrapeCommunity envBiz = scrapeCommunity envBiz \<and> bulkStage envBiz = bulkStage envBiz)
            \<or> (scrapeCommunity envBiz = scrapeSinglePostPerPlatform envBiz \<and> bulkStage envBiz = singleStage envBiz)
            \<or> (scrapeCommunity envBiz = (\<lambda>cid. scrapeAuthenticContent envBiz cid 0)
                \<and> bulkStage envBiz = authenticStage envBiz 0)"
    by simp
  have f: "find (\<lambda>c. c_id c = ''c1'') (communities worldBiz) = Some communityBiz"
    by (simp add: biz_world biz_community)
  have u: "platformUsers worldBiz \<noteq> []" by (simp add: biz_world)
  have f1: "fault envBiz (dbOps worldBiz) = None" and f2: "fault envBiz (dbOps worldBiz + 1) = None"
    by (simp_all add: envBiz_fields)
  let ?w2 = "worldBiz\<lparr>posts :=
                 [scrapedPostDoc envBiz communityBiz ''reddit'' (transformRedditPost (\<lambda>u. False) 0 postNew) 1
                    ''u1'' 5 1700000600000],
             dbOps := 6, draws := 3, requests := 1,
             trace := [Requested (GetListing ''business'' ''new'' 25 None)]\<rparr>"
  have l: "forEach (platformStep (bulkStage envBiz communityBiz (platformUsers worldBiz)))
             (scrapingPlatforms communityBiz) (0, []) (worldBiz\<lparr>dbOps := dbOps worldBiz + 2\<rparr>) =
           (Return (1, [failed cfgBad ?e,
                \<lparr>pr_platform = ''reddit'', pr_postsCreated = 1, pr_skippedExisting = 0,
                  pr_skippedLowQuality = 0, success = True, pr_error = None\<rparr>]), ?w2)"
    unfolding biz_world biz_community add_0 by (rule biz_loop)
  have f3: "fault envBiz (dbOps ?w2) = None" by (simp add: envBiz_fields)
  have t: "bulkStage envBiz communityBiz [''u1''] cfgBad (worldBiz\<lparr>dbOps := 2\<rparr>) = (Throw ?e, worldBiz\<lparr>dbOps := 2\<rparr>)"
    by (simp add: bulkStage_def bindP_def scrape_bad biz_configs Let_def)
  note pfi = partial_failure_isolation [OF m f u f1 f2 l f3]
  from pfi [THEN conjunct1] pfi [THEN conjunct2, THEN conjunct1] f t
  show ?thesis
    by (simp add: biz_world biz_community envBiz_fields scrapedNow_def failed_def)
qed


section \<open>The sweep over the communities\<close>

lemma sweepStep_no_throw: "fst (sweepStep run c rs w) \<noteq> Throw e"
proof -
  obtain o1 w1 where r: "run (c_id c) w = (o1, w1)" by force
  show ?thesis
    using r by (cases o1) (simp_all add: sweepStep_def tryCatch_def bindP_def ret_def)
qed

lemma sweepStep_counts:
  assumes "sweepStep run c rs w = (Return rs', w')"
  shows "totalCommunities rs' = totalCommunities rs
       \<and> successfulScrapes rs' + failedScrapes rs' = successfulScrapes rs + failedScrapes rs + 1
       \<and> length (errors rs') + failedScrapes rs = length (errors rs) + failedScrapes rs'"
proof -
  obtain o1 w1 where r: "run (c_id c) w = (o1, w1)" by force
  show ?thesis
    using assms r
    by (cases o1) (auto simp: sweepStep_def tryCatch_def bindP_def ret_def)
qed

lemma sweepLoop_no_throw: "fst (forEach (sweepStep run) cs rs w) \<noteq> Throw e"
proof (induction cs arbitrary: rs w)
  case Nil
  show ?case by (simp add: ret_def)
next
  case (Cons c cs)
  obtain o1 w1 where s: "sweepStep run c rs w = (o1, w1)" by force
  from sweepStep_no_throw [of run c rs w] s have "\<And>e. o1 \<noteq> Throw e" by simp
  with s Cons.IH show ?case
    by (cases o1) (simp_all add: bindP_def)
qed

lemma sweepLoop_counts:
  "forEach (sweepStep run) cs rs w = (Return rs', w') \<Longrightarrow>
   totalCommunities rs' = totalCommunities rs
   \<and> successfulScrapes rs' + failedScrapes rs' = successfulScrapes rs + failedScrapes rs + length cs
   \<and> length (errors rs') + failedScrapes rs = length (errors rs) + failedScrapes rs'"
proof (induction cs arbitrary: rs w)
  case Nil
  then show ?case by (simp add: ret_def)
next
  case (Cons c cs)
  obtain o1 w1 where s: "sweepStep run c rs w = (o1, w1)" by force
  with Cons.prems obtain rs1 where o: "o1 = Return rs1"
    and rest: "forEach (sweepStep run) cs rs1 w1 = (Return rs', w')"
    by (cases o1) (simp_all add: bindP_def)
  note a = sweepStep_counts [OF s [unfolded o]]
  note b = Cons.IH [OF rest]
  have 1: "totalCommunities rs' = totalCommunities rs" using a b by simp
  have 2: "successfulScrapes rs' + failedScrapes rs' = successfulScrapes rs + failedScrapes rs + length (c # cs)"
    using a b by simp
  have 3: "length (errors rs') + failedScrapes rs = length (errors rs) + failedScrapes rs'"
    using a b by linarith
  from 1 2 3 show ?case by blast
qed

lemma sweepStep_failure:
  "run (c_id c) wa = (Throw e, wb) \<Longrightarrow>
   sweepStep run c rs wa =
     (Return (rs\<lparr>failedScrapes := failedScrapes rs + 1, errors := errors rs @ [(c_name c, message e)]\<rparr>), wb)"
  by (simp add: sweepStep_def tryCatch_def bindP_def ret_def)

lemma sweepLoop_settles:
  "(\<And>c wa. c \<in> set cs \<Longrightarrow> fst (run (c_id c) wa) \<noteq> Diverge) \<Longrightarrow>
   \<exists>r w'. forEach (sweepStep run) cs rs w = (Return r, w')"
proof (induction cs arbitrary: rs w)
  case Nil
  show ?case by (simp add: ret_def)
next
  case (Cons c cs)
  obtain o1 w1 where r: "run (c_id c) w = (o1, w1)" by force
  with Cons.prems [of c w] have "o1 \<noteq> Diverge" by simp
  with r obtain rs1 where s: "sweepStep run c rs w = (Return rs1, w1)"
    by (cases o1) (simp_all add: sweepStep_def tryCatch_def bindP_def ret_def)
  have "\<exists>r w'. forEach (sweepStep run) cs rs1 w1 = (Return r, w')"
    by (rule Cons.IH) (simp add: Cons.prems)
  with s show ?case by (simp add: bindP_def)
qed

text \<open>
  C7. If the query for the active communities is rejected, the entrypoint rejects with that
  error. Otherwise it never rejects: it returns a result that counts the active communities,
  each of them as a success or as a failure, with one recorded error per failure, unless the
  run of some community never settles, in which case the sweep does not settle either. When
  the run of a community throws, the sweep goes on with the remaining communities, having
  incremented \<open>failedScrapes\<close> and recorded the name of the community with the message.
\<close>

theorem sweep_never_rejects:
  assumes m: "(ep = scrapeAllCommunities env \<and> run = scrapeCommunity env)
            \<or> (ep = scrapeSinglePostFromAllCommunities env \<and> run = scrapeSinglePostPerPlatform env)"
  shows "(case fault env (dbOps w) of
            Some msg \<Rightarrow> ep w = (Throw (Err msg None), w\<lparr>dbOps := dbOps w + 1\<rparr>)
          | None \<Rightarrow>
              (\<exists>r w'. ep w = (Return r, w')
                 \<and> totalCommunities r = length (filter activeCommunity (communities w))
                 \<and> successfulScrapes r + failedScrapes r = totalCommunities r
                 \<and> length (errors r) = failedScrapes r)
              \<or> (\<exists>c wa. c \<in> set (filter activeCommunity (communities w))
                    \<and> fst (run (c_id c) wa) = Diverge \<and> fst (ep w) = Diverge))
       \<and> (\<forall>pre c rest rs wa e wb.
             filter activeCommunity (communities w) = pre @ c # rest
             \<and> forEach (sweepStep run) pre
                 \<lparr>totalCommunities = length (filter activeCommunity (communities w)), successfulScrapes = 0,
                  failedScrapes = 0, totalPostsCreated = 0, errors = []\<rparr> (w\<lparr>dbOps := dbOps w + 1\<rparr>)
                 = (Return rs, wa)
             \<and> fault env (dbOps w) = None
             \<and> run (c_id c) wa = (Throw e, wb) \<longrightarrow>
             ep w = forEach (sweepStep run) rest
                      (rs\<lparr>failedScrapes := failedScrapes rs + 1,
                          errors := errors rs @ [(c_name c, message e)]\<rparr>) wb)"
proof -
  let ?cs = "filter activeCommunity (communities w)"
  let ?r0 = "\<lparr>totalCommunities = length ?cs, successfulScrapes = 0, failedScrapes = 0,
              totalPostsCreated = 0, errors = []\<rparr>"
  let ?w1 = "w\<lparr>dbOps := dbOps w + 1\<rparr>"
  have e: "ep = sweep env run"
    using m by (auto simp: scrapeAllCommunities_def scrapeSinglePostFromAllCommunities_def)
  have s: "fault env (dbOps w) = None \<Longrightarrow> ep w = forEach (sweepStep run) ?cs ?r0 ?w1"
    by (simp add: e sweep_def bindP_def findActiveCommunities_def dbOp_def activeCommunity_def [abs_def])
  have a: "case fault env (dbOps w) of
            Some msg \<Rightarrow> ep w = (Throw (Err msg None), w\<lparr>dbOps := dbOps w + 1\<rparr>)
          | None \<Rightarrow>
              (\<exists>r w'. ep w = (Return r, w')
                 \<and> totalCommunities r = length ?cs
                 \<and> successfulScrapes r + failedScrapes r = totalCommunities r
                 \<and> length (errors r) = failedScrapes r)
              \<or> (\<exists>c wa. c \<in> set ?cs \<and> fst (run (c_id c) wa) = Diverge \<and> fst (ep w) = Diverge)"
  proof (cases "fault env (dbOps w)")
    case (Some msg)
    then show ?thesis
      by (simp add: e sweep_def bindP_def findActiveCommunities_def dbOp_def)
  next
    case None
    obtain out w' where o: "forEach (sweepStep run) ?cs ?r0 ?w1 = (out, w')" by force
    show ?thesis
    proof (cases out)
      case (Return r)
      from sweepLoop_counts [OF o [unfolded Return]]
      have "totalCommunities r = length ?cs \<and> successfulScrapes r + failedScrapes r = totalCommunities r
            \<and> length (errors r) = failedScrapes r"
        by simp
      moreover have "ep w = (Return r, w')"
        using s [OF None] o Return by simp
      ultimately have "\<exists>r w'. ep w = (Return r, w')
                 \<and> totalCommunities r = length ?cs
                 \<and> successfulScrapes r + failedScrapes r = totalCommunities r
                 \<and> length (errors r) = failedScrapes r"
        by blast
      with None show ?thesis by simp
    next
      case (Throw x)
      with sweepLoop_no_throw [of run ?cs ?r0 ?w1 x] o show ?thesis by simp
    next
      case Diverge
      have "\<exists>c wa. c \<in> set ?cs \<and> fst (run (c_id c) wa) = Diverge"
      proof (rule ccontr)
        assume "\<not> (\<exists>c wa. c \<in> set ?cs \<and> fst (run (c_id c) wa) = Diverge)"
        then have "\<And>c wa. c \<in> set ?cs \<Longrightarrow> fst (run (c_id c) wa) \<noteq> Diverge" by blast
        from sweepLoop_settles [of ?cs run ?r0 ?w1, OF this] o Diverge show False by simp
      qed
      moreover have "fst (ep w) = Diverge"
        using s [OF None] o Diverge by simp
      ultimately have "\<exists>c wa. c \<in> set ?cs \<and> fst (run (c_id c) wa) = Diverge \<and> fst (ep w) = Diverge"
        by blast
      with None show ?thesis by simp
    qed
  qed
  have b: "\<forall>pre c rest rs wa e wb.
             ?cs = pre @ c # rest
             \<and> forEach (sweepStep run) pre ?r0 ?w1 = (Return rs, wa)
             \<and> fault env (dbOps w) = None
             \<and> run (c_id c) wa = (Throw e, wb) \<longrightarrow>
             ep w = forEach (sweepStep run) rest
                      (rs\<lparr>failedScrapes := failedScrapes rs + 1,
                          errors := errors rs @ [(c_name c, message e)]\<rparr>) wb"
  proof (intro allI impI)
    fix pre c rest rs wa e wb
    assume h: "?cs = pre @ c # rest
             \<and> forEach (sweepStep run) pre ?r0 ?w1 = (Return rs, wa)
             \<and> fault env (dbOps w) = None
             \<and> run (c_id c) wa = (Throw e, wb)"
    from h have eq: "?cs = pre @ c # rest"
      and p: "forEach (sweepStep run) pre ?r0 ?w1 = (Return rs, wa)"
      and f: "fault env (dbOps w) = None"
      and t: "run (c_id c) wa = (Throw e, wb)"
      by blast+
    have "ep w = forEach (sweepStep run) ?cs ?r0 ?w1"
      by (rule s [OF f])
    also have "\<dots> = forEach (sweepStep run) (pre @ c # rest) ?r0 ?w1"
      by (rule arg_cong [where f = "\<lambda>xs. forEach (sweepStep run) xs ?r0 ?w1"]) (rule eq)
    also have "\<dots> = forEach (sweepStep run) (c # rest) rs wa"
      using p by (simp add: forEach_append bindP_def del: forEach.simps)
    also have "\<dots> = forEach (sweepStep run) rest
                      (rs\<lparr>failedScrapes := failedScrapes rs + 1,
                          errors := errors rs @ [(c_name c, message e)]\<rparr>) wb"
      using t by (simp add: sweepStep_failure bindP_def)
    finally show "ep w = forEach (sweepStep run) rest
                      (rs\<lparr>failedScrapes := failedScrapes rs + 1,
                          errors := errors rs @ [(c_name c, message e)]\<rparr>) wb" .
  qed
  from a b show ?thesis by blast
qed

lemma envSweep_fields:
  "upstream envSweep = upstreamBiz" "fault envSweep n = (if n = 1 then Some ''connection lost'' else None)"
  "random envSweep n = 0" "calculateQualityScore envSweep c = 1"
  "isImageUrl envSweep = (\<lambda>u. False)" "\<not> openaiKey envSweep" "fuel envSweep = Suc (Suc (Suc (Suc 0)))"
  by (simp_all add: envSweep_def envBiz_def env0_def)

lemma sweep_world:
  "posts worldSweep = []" "communities worldSweep = [communityBiz, communityTwo]"
  "platformUsers worldSweep = [''u1'']" "clock worldSweep = 1700000600000" "requests worldSweep = 0"
  "dbOps worldSweep = 0" "draws worldSweep = 0" "trace worldSweep = []"
  by (simp_all add: worldSweep_def worldBiz_def world0_def)

lemma sweep_community:
  "c_id communityTwo = ''c2''" "c_name communityTwo = ''Two''" "scrapingPlatforms communityTwo = [cfgGood]"
  "lastScrapedAt communityTwo = None" "postCount communityTwo = 0"
  "c_scrapingConfig communityTwo = None" "c_isActive communityTwo"
  by (simp_all add: communityTwo_def)

lemma scrape_good_sweep:
  "scrapeContent envSweep \<lparr>sc_sourceUrl = ''https://www.reddit.com/r/business/'', sc_keywords = [],
      sc_maxPosts = 50, sc_sort = ''new'', sc_excludeStickied = True, sc_minCreatedUtc = None\<rparr> w =
   (Return [transformRedditPost (\<lambda>u. False) 0 postNew, transformRedditPost (\<lambda>u. False) 0 postOld],
    w\<lparr>requests := requests w + 1, draws := draws w + 2,
      trace := trace w @ [Requested (GetListing ''business'' ''new'' 25 None)]\<rparr>)"
  by (simp add: scrapeContent_def extract_good tryCatch_def bindP_def ret_def fetchRedditPosts_def
      envSweep_fields upstreamBiz_def biz_posts biz_short authorizedGet_def normalizedSort_def truthy_def
      childrenOf_def afterOf_def olderThanMin_def drawFor_def drawBelow_def Let_def)

lemma sweep_run:
  "scrapeAllCommunities envSweep worldSweep =
     (Return \<lparr>totalCommunities = 2, successfulScrapes = 1, failedScrapes = 1, totalPostsCreated = 2,
              errors = [(''Biz'', ''connection lost'')]\<rparr>,
      worldSweep\<lparr>posts :=
                 [scrapedPostDoc envSweep communityTwo ''reddit'' (transformRedditPost (\<lambda>u. False) 0 postNew) 1
                    ''u1'' 5 1700000600000,
                  scrapedPostDoc envSweep communityTwo ''reddit'' (transformRedditPost (\<lambda>u. False) 0 postOld) 1
                    ''u1'' 5 1700000600000],
               communities := [communityBiz, scrapedNow 1700000600000 2 communityTwo],
               dbOps := 13, draws := 6, requests := 1,
               trace := [Requested (GetListing ''business'' ''new'' 25 None)]\<rparr>)"
  by (simp add: scrapeAllCommunities_def sweep_def sweepStep_def findActiveCommunities_def
      scrapeCommunity_def communityRun_def bindP_def tryCatch_def ret_def throw_def dbOp_def
      findCommunityById_def findPlatformUsers_def platformStep_def bulkStage_def toUnixSeconds_def maxPostsOr_def
      scrape_good_sweep filterNewContent_def postExists_def
      createPostsFromScrapedContent_def createFromScraped_def draw_def drawBelow_def userAt_def now_def
      createPost_def assignInitialLikesToPost_def afterCreation_def generateCommentsForCreatedPosts_def
      markScraped_def thresholdOr_def Let_def postMatches_def scrapedNow_def noneCreated_def
      envSweep_fields biz_posts biz_configs biz_community sweep_community sweep_world transformed_fields
      scrapedPostDoc_fields baseUrl_def printed_def)

theorem sweep_never_rejects_witness:
  "fault envSweep (dbOps worldSweep) = None
   \<and> filter activeCommunity (communities worldSweep) = [communityBiz, communityTwo]
   \<and> scrapeCommunity envSweep ''c1'' (worldSweep\<lparr>dbOps := 1\<rparr>) =
       (Throw (Err ''connection lost'' None), worldSweep\<lparr>dbOps := 2\<rparr>)
   \<and> fst (scrapeAllCommunities envSweep worldSweep) =
       Return \<lparr>totalCommunities = 2, successfulScrapes = 1, failedScrapes = 1, totalPostsCreated = 2,
               errors = [(''Biz'', ''connection lost'')]\<rparr>
   \<and> map postCount (communities (snd (scrapeAllCommunities envSweep worldSweep))) = [7, 2]"
proof -
  have m: "(scrapeAllCommunities envSweep = scrapeAllCommunities envSweep
              \<and> scrapeCommunity envSweep = scrapeCommunity envSweep)
            \<or> (scrapeAllCommunities envSweep = scrapeSinglePostFromAllCommunities envSweep
              \<and> scrapeCommunity envSweep = scrapeSinglePostPerPlatform envSweep)"
    by simp
  have f: "fault envSweep (dbOps worldSweep) = None"
    by (simp add: envSweep_fields sweep_world)
  have a: "filter activeCommunity (communities worldSweep) = [communityBiz, communityTwo]"
    by (simp add: activeCommunity_def sweep_world biz_community sweep_community biz_configs)
  have t: "scrapeCommunity envSweep ''c1'' (worldSweep\<lparr>dbOps := 1\<rparr>) =
       (Throw (Err ''connection lost'' None), worldSweep\<lparr>dbOps := 2\<rparr>)"
    by (simp add: scrapeCommunity_def communityRun_def bindP_def findCommunityById_def dbOp_def
        envSweep_fields)
  from sweep_never_rejects [OF m, where w = worldSweep, THEN conjunct1] f a t
  show ?thesis
    by (simp add: sweep_run sweep_world scrapedNow_def biz_community sweep_community)
qed

end
